theory Spec2Isabelle
  imports Complex_Main "HOL-Library.AList" "HOL-Library.Sublist"
begin

section \<open>Python values used by the assessment script\<close>

text \<open>
  The script \<^verbatim>\<open>scripts/deployment-readiness-assessment.py\<close> is embedded function by
  function. Strings are \<^typ>\<open>string\<close>: text outside ASCII is carried as its UTF-8 bytes and is
  never a letter, a digit or white space. Lower-casing therefore acts on \<open>A\<close> to \<open>Z\<close> only;
  the few characters outside ASCII that Python lower-cases into ASCII give a \<open>k\<close>, or an
  \<open>i\<close> followed by a combining mark, and no keyword the script searches for has a \<open>k\<close> or
  ends in \<open>i\<close>. Python's floats are taken as exact rationals; every score the script can
  compute is a multiple of 5 out of 400, where the two agree on each comparison the script
  makes.
\<close>

subsection \<open>Strings\<close>

definition lower_char :: "char \<Rightarrow> char" where
  "lower_char c =
     (let n = (of_char c :: nat) in if 65 \<le> n \<and> n \<le> 90 then char_of (n + 32) else c)"

text \<open>\<^verbatim>\<open>s.lower()\<close>\<close>

definition lower :: "string \<Rightarrow> string" where
  "lower s = map lower_char s"

text \<open>\<^verbatim>\<open>sub in s\<close> on strings: \<open>sub\<close> occurs in \<open>s\<close> as a contiguous block.\<close>

fun str_in :: "string \<Rightarrow> string \<Rightarrow> bool" where
  "str_in sub [] = (sub = [])"
| "str_in sub (c # cs) = (prefix sub (c # cs) \<or> str_in sub cs)"

definition digit_char :: "nat \<Rightarrow> char" where
  "digit_char d = char_of (48 + d)"

text \<open>\<^verbatim>\<open>str(n)\<close> for a non-negative integer, and for any integer.\<close>

fun str_nat :: "nat \<Rightarrow> string" where
  "str_nat n = (if n < 10 then [digit_char n] else str_nat (n div 10) @ [digit_char (n mod 10)])"

declare str_nat.simps [simp del]

definition str_int :: "int \<Rightarrow> string" where
  "str_int i = (if i < 0 then CHR ''-'' # str_nat (nat (- i)) else str_nat (nat i))"

text \<open>
  \<^verbatim>\<open>f'{x:.2f}'\<close>: the value rounded to two decimals, ties to even, with at least one digit
  before the point.
\<close>

definition round_half_even :: "rat \<Rightarrow> int" where
  "round_half_even q =
     (let f = \<lfloor>q\<rfloor>; d = q - of_int f in
      if d < 1 / 2 then f else if 1 / 2 < d then f + 1 else if even f then f else f + 1)"

definition format_2f :: "rat \<Rightarrow> string" where
  "format_2f x =
     (let n = nat (round_half_even (\<bar>x\<bar> * 100));
          frac = n mod 100
      in (if x < 0 then ''-'' else '''') @ str_nat (n div 100) @ ''.'' @
         [digit_char (frac div 10), digit_char (frac mod 10)])"

subsection \<open>Exceptions\<close>

text \<open>
  An exception is its class and the text \<^verbatim>\<open>str(e)\<close> gives. Every class below derives from
  \<^verbatim>\<open>Exception\<close>; \<^verbatim>\<open>RequestException\<close> stands for
  \<^verbatim>\<open>requests.exceptions.RequestException\<close> and its subclasses, \<^verbatim>\<open>MySQLError\<close> for
  \<^verbatim>\<open>mysql.connector.Error\<close> and its subclasses.
\<close>

datatype exc_class =
    TimeoutExpired | RequestException | MySQLError | KeyError | ValueError | IndexError
  | ZeroDivisionError | UnboundLocalError | JSONDecodeError | OSError | OtherException

datatype py_exception = Exc exc_class string

fun exc_class_of :: "py_exception \<Rightarrow> exc_class" where
  "exc_class_of (Exc c m) = c"

text \<open>\<^verbatim>\<open>str(e)\<close>\<close>

fun exc_str :: "py_exception \<Rightarrow> string" where
  "exc_str (Exc c m) = m"

section \<open>Data model\<close>

text \<open>
  The dictionary every assessor builds and returns. \<open>details\<close> is a Python \<^verbatim>\<open>dict\<close>: an
  association list in insertion order, where assigning to a key that is present replaces its
  value in place (\<^const>\<open>AList.update\<close>).
\<close>

record category_result =
  score :: int
  max_score :: int
  details :: "(string \<times> string) list"
  issues :: "string list"

datatype status = UNKNOWN | READY | READY_WITH_WARNINGS | NOT_READY

text \<open>\<^verbatim>\<open>self.results\<close>\<close>

record assessment_results =
  timestamp :: string
  overall_status :: status
  readiness_score :: rat
  categories :: "(string \<times> category_result) list"
  critical_issues :: "string list"
  warnings :: "string list"
  recommendations :: "string list"

text \<open>The dictionary each assessor starts from.\<close>

definition initial_result :: category_result where
  "initial_result = \<lparr>score = 0, max_score = 100, details = [], issues = []\<rparr>"

text \<open>\<^verbatim>\<open>results['details'][k] = v\<close>, \<^verbatim>\<open>results['score'] += n\<close>, \<^verbatim>\<open>results['issues'].append(s)\<close>\<close>

definition set_detail :: "string \<Rightarrow> string \<Rightarrow> category_result \<Rightarrow> category_result" where
  "set_detail k v r = r\<lparr>details := AList.update k v (details r)\<rparr>"

definition add_score :: "int \<Rightarrow> category_result \<Rightarrow> category_result" where
  "add_score n r = r\<lparr>score := score r + n\<rparr>"

definition add_issue :: "string \<Rightarrow> category_result \<Rightarrow> category_result" where
  "add_issue s r = r\<lparr>issues := issues r @ [s]\<rparr>"

section \<open>Aggregation, classification and status (\<^verbatim>\<open>run_assessment\<close>, second half)\<close>

text \<open>\<^verbatim>\<open>sum(cat['score'] for cat in categories.values())\<close> and the same for \<^verbatim>\<open>max_score\<close>.\<close>

definition total_score :: "(string \<times> category_result) list \<Rightarrow> int" where
  "total_score cats = sum_list (map (\<lambda>(name, cat). score cat) cats)"

definition max_total_score :: "(string \<times> category_result) list \<Rightarrow> int" where
  "max_total_score cats = sum_list (map (\<lambda>(name, cat). max_score cat) cats)"

text \<open>
  \<^verbatim>\<open>(total_score / max_total_score) * 100 if max_total_score > 0 else 0\<close>
\<close>

definition compute_readiness_score :: "(string \<times> category_result) list \<Rightarrow> rat" where
  "compute_readiness_score cats =
     (if max_total_score cats > 0
      then (of_int (total_score cats) / of_int (max_total_score cats)) * 100
      else 0)"

text \<open>
  \<^verbatim>\<open>any(keyword in issue.lower() for keyword in ['critical', 'failed', 'error', 'not found'])\<close>
\<close>

definition critical_keywords :: "string list" where
  "critical_keywords = [''critical'', ''failed'', ''error'', ''not found'']"

definition is_critical :: "string \<Rightarrow> bool" where
  "is_critical issue = list_ex (\<lambda>keyword. str_in keyword (lower issue)) critical_keywords"

text \<open>The inner loop over one category's issues, appending to the two lists of the results.\<close>

fun classify_issues :: "string list \<Rightarrow> string list \<times> string list \<Rightarrow> string list \<times> string list" where
  "classify_issues [] (crit, warn) = (crit, warn)"
| "classify_issues (issue # rest) (crit, warn) =
     (if is_critical issue
      then classify_issues rest (crit @ [issue], warn)
      else classify_issues rest (crit, warn @ [issue]))"

text \<open>The outer loop over \<^verbatim>\<open>categories.values()\<close>.\<close>

fun classify_categories ::
  "(string \<times> category_result) list \<Rightarrow> string list \<times> string list \<Rightarrow> string list \<times> string list" where
  "classify_categories [] acc = acc"
| "classify_categories ((name, cat) # rest) acc =
     classify_categories rest (classify_issues (issues cat) acc)"

text \<open>The \<^verbatim>\<open>if\<close>/\<^verbatim>\<open>elif\<close>/\<^verbatim>\<open>else\<close> that sets \<^verbatim>\<open>overall_status\<close>.\<close>

definition determine_status :: "rat \<Rightarrow> string list \<Rightarrow> status" where
  "determine_status rs crit =
     (if rs \<ge> 90 \<and> crit = [] then READY
      else if rs \<ge> 70 \<and> length crit \<le> 2 then READY_WITH_WARNINGS
      else NOT_READY)"

section \<open>Recommendations (\<^verbatim>\<open>generate_recommendations\<close>)\<close>

definition ready_opening :: string where
  "ready_opening = [CHR 0xE2, CHR 0x9C, CHR 0x85] @ '' System is ready for deployment''"

definition warnings_opening :: string where
  "warnings_opening = [CHR 0xE2, CHR 0x9A, CHR 0xA0, CHR 0xEF, CHR 0xB8, CHR 0x8F] @
     '' System has minor issues but may proceed with caution''"

definition not_ready_opening :: string where
  "not_ready_opening = [CHR 0xE2, CHR 0x9D, CHR 0x8C] @ '' System is not ready for deployment''"

text \<open>The first \<^verbatim>\<open>if\<close> chain, on \<^verbatim>\<open>total_score / max_total_score\<close>.\<close>

definition tier_recommendations :: "rat \<Rightarrow> string list" where
  "tier_recommendations ratio =
     (if ratio \<ge> 9 / 10 then
        [ready_opening, ''Proceed with deployment checklist'']
      else if ratio \<ge> 7 / 10 then
        [warnings_opening, ''Address warnings before deployment'',
         ''Ensure rollback procedures are ready'']
      else
        [not_ready_opening, ''Address critical issues before proceeding'',
         ''Re-run assessment after fixes''])"

text \<open>\<^verbatim>\<open>any(kw in issue.lower() for issue in all_issues)\<close>\<close>

definition any_issue_has :: "string \<Rightarrow> string list \<Rightarrow> bool" where
  "any_issue_has kw all_issues = list_ex (\<lambda>issue. str_in kw (lower issue)) all_issues"

text \<open>The lines each of the four \<^verbatim>\<open>if any(...)\<close> statements appends.\<close>

definition test_block :: "string list" where
  "test_block = [''Fix failing tests before deployment'']"

definition performance_block :: "string list" where
  "performance_block = [''Optimize performance before deployment'',
                        ''Consider load testing with BigDecimal operations'']"

definition memory_block :: "string list" where
  "memory_block = [''Monitor memory usage closely during deployment'',
                   ''Consider increasing JVM heap size'']"

definition database_block :: "string list" where
  "database_block = [''Verify database migration scripts'',
                     ''Ensure database backup is current'']"

text \<open>The four statements, in order, each appending to the list so far.\<close>

definition issue_recommendations :: "string list \<Rightarrow> string list \<Rightarrow> string list" where
  "issue_recommendations all_issues recs0 =
     (let recs1 = (if any_issue_has ''test'' all_issues then recs0 @ test_block else recs0);
          recs2 = (if list_ex (\<lambda>issue. str_in ''performance'' (lower issue) \<or>
                                       str_in ''slow'' (lower issue)) all_issues
                   then recs1 @ performance_block else recs1);
          recs3 = (if any_issue_has ''memory'' all_issues then recs2 @ memory_block else recs2);
          recs4 = (if any_issue_has ''database'' all_issues then recs3 @ database_block else recs3)
      in recs4)"

text \<open>\<^verbatim>\<open>all_issues\<close>: every category's issues, in category order.\<close>

definition all_issues_of :: "(string \<times> category_result) list \<Rightarrow> string list" where
  "all_issues_of cats = concat (map (\<lambda>(name, cat). issues cat) cats)"

text \<open>
  The division is not guarded here: with a zero sum of maxima the first comparison raises
  \<^verbatim>\<open>ZeroDivisionError\<close>.
\<close>

definition generate_recommendations ::
  "(string \<times> category_result) list \<Rightarrow> py_exception + string list" where
  "generate_recommendations cats =
     (if max_total_score cats = 0 then Inl (Exc ZeroDivisionError ''division by zero'')
      else Inr (issue_recommendations (all_issues_of cats)
                  (tier_recommendations (of_int (total_score cats) / of_int (max_total_score cats)))))"

section \<open>Text processing\<close>

text \<open>White space as \<^verbatim>\<open>str.strip()\<close> and \<^verbatim>\<open>str.split()\<close> see it, within ASCII.\<close>

definition is_space :: "char \<Rightarrow> bool" where
  "is_space c = (let n = (of_char c :: nat) in (9 \<le> n \<and> n \<le> 13) \<or> (28 \<le> n \<and> n \<le> 32))"

definition strip :: "string \<Rightarrow> string" where
  "strip s = rev (dropWhile is_space (rev (dropWhile is_space s)))"

text \<open>\<^verbatim>\<open>s.rstrip('%')\<close>\<close>

definition rstrip_char :: "char \<Rightarrow> string \<Rightarrow> string" where
  "rstrip_char ch s = rev (dropWhile (\<lambda>c. c = ch) (rev s))"

text \<open>\<^verbatim>\<open>s.split(sep)\<close> for a one-character separator; \<open>cur\<close> is the piece being read.\<close>

fun split_sep_from :: "char \<Rightarrow> string \<Rightarrow> string \<Rightarrow> string list" where
  "split_sep_from sep cur [] = [cur]"
| "split_sep_from sep cur (c # cs) =
     (if c = sep then cur # split_sep_from sep [] cs else split_sep_from sep (cur @ [c]) cs)"

definition split_sep :: "char \<Rightarrow> string \<Rightarrow> string list" where
  "split_sep sep s = split_sep_from sep [] s"

text \<open>\<^verbatim>\<open>s.split()\<close>: the maximal runs of characters that are not white space.\<close>

fun split_ws_from :: "string \<Rightarrow> string \<Rightarrow> string list" where
  "split_ws_from cur [] = (if cur = [] then [] else [cur])"
| "split_ws_from cur (c # cs) =
     (if is_space c
      then (if cur = [] then split_ws_from [] cs else cur # split_ws_from [] cs)
      else split_ws_from (cur @ [c]) cs)"

definition split_ws :: "string \<Rightarrow> string list" where
  "split_ws s = split_ws_from [] s"

text \<open>\<^verbatim>\<open>xs[i]\<close> for \<open>i \<ge> 0\<close>, raising \<^verbatim>\<open>IndexError\<close> out of range.\<close>

definition index :: "'a list \<Rightarrow> nat \<Rightarrow> py_exception + 'a" where
  "index xs i = (if i < length xs then Inr (xs ! i) else Inl (Exc IndexError ''list index out of range''))"

definition hex_char :: "nat \<Rightarrow> char" where
  "hex_char d = (if d < 10 then char_of (48 + d) else char_of (87 + d))"

text \<open>
  \<^verbatim>\<open>repr(s)\<close>: double quotes when the text has a single quote and no double quote, single
  quotes otherwise; backslash, the quote in use, and control characters are escaped.
\<close>

definition repr_char :: "char \<Rightarrow> char \<Rightarrow> string" where
  "repr_char q c =
     (let n = (of_char c :: nat) in
      if c = q \<or> n = 92 then [CHR 0x5C, c]
      else if n = 10 then [CHR 0x5C, CHR ''n'']
      else if n = 13 then [CHR 0x5C, CHR ''r'']
      else if n = 9 then [CHR 0x5C, CHR ''t'']
      else if n < 32 \<or> n = 127 then [CHR 0x5C, CHR ''x'', hex_char (n div 16), hex_char (n mod 16)]
      else [c])"

definition repr :: "string \<Rightarrow> string" where
  "repr s =
     (let q = (if CHR 0x27 \<in> set s \<and> CHR 0x22 \<notin> set s then CHR 0x22 else CHR 0x27)
      in [q] @ concat (map (repr_char q) s) @ [q])"

definition is_digit :: "char \<Rightarrow> bool" where
  "is_digit c = (let n = (of_char c :: nat) in 48 \<le> n \<and> n \<le> 57)"

definition digit_value :: "char \<Rightarrow> nat" where
  "digit_value c = of_char c - 48"

text \<open>Decimal digits, with single underscores allowed between digits.\<close>

fun parse_digits :: "nat \<Rightarrow> string \<Rightarrow> nat option" where
  "parse_digits acc [] = Some acc"
| "parse_digits acc [c] = (if is_digit c then Some (acc * 10 + digit_value c) else None)"
| "parse_digits acc (c # d # cs) =
     (if is_digit c then parse_digits (acc * 10 + digit_value c) (d # cs)
      else if c = CHR ''_'' \<and> is_digit d then parse_digits acc (d # cs)
      else None)"

definition parse_literal :: "string \<Rightarrow> nat option" where
  "parse_literal s = (case s of [] \<Rightarrow> None | c # cs \<Rightarrow> if is_digit c then parse_digits 0 s else None)"

text \<open>
  \<^verbatim>\<open>int(s)\<close> in base 10: surrounding white space, an optional sign, then the literal. The
  interpreter's limit on the number of digits and digits outside ASCII are not modelled.
\<close>

definition py_int :: "string \<Rightarrow> py_exception + int" where
  "py_int s =
     (let t = strip s;
          bad = Inl (Exc ValueError (''invalid literal for int() with base 10: '' @ repr s))
      in case t of
           [] \<Rightarrow> bad
         | c # cs \<Rightarrow>
             if c = CHR ''-'' then (case parse_literal cs of None \<Rightarrow> bad | Some n \<Rightarrow> Inr (- int n))
             else if c = CHR ''+'' then (case parse_literal cs of None \<Rightarrow> bad | Some n \<Rightarrow> Inr (int n))
             else (case parse_literal t of None \<Rightarrow> bad | Some n \<Rightarrow> Inr (int n)))"

section \<open>Configuration (\<^verbatim>\<open>load_config\<close>)\<close>

text \<open>
  The configuration dictionary: the keys the script reads. An override document is a JSON
  object whose values, where given, have the shape of the defaults (a string, an object of
  strings, an object of numbers).
\<close>

record config =
  api_base_url :: string
  database :: "(string \<times> string) list"
  thresholds :: "(string \<times> rat) list"

record user_config =
  user_api_base_url :: "string option"
  user_database :: "(string \<times> string) list option"
  user_thresholds :: "(string \<times> rat) list option"

text \<open>What is at a path: nothing, a file that \<^verbatim>\<open>open\<close> or \<^verbatim>\<open>json.load\<close> raises on, or a document.\<close>

datatype config_file_state = Absent | LoadRaises py_exception | Document user_config

definition default_config :: "string \<Rightarrow> config" where
  "default_config db_password =
     \<lparr>api_base_url = ''http://localhost:8080'',
      database = [(''host'', ''localhost''), (''database'', ''dcf_calculator''),
                  (''user'', ''dcf_user''), (''password'', db_password)],
      thresholds = [(''response_time_ms'', 2000), (''memory_usage_mb'', 2048),
                    (''test_pass_rate'', 95), (''query_time_ms'', 1000)]\<rparr>"

text \<open>\<^verbatim>\<open>default_config.update(user_config)\<close>: a key of the document replaces the default whole.\<close>

definition update_config :: "config \<Rightarrow> user_config \<Rightarrow> config" where
  "update_config c u =
     \<lparr>api_base_url = (case user_api_base_url u of None \<Rightarrow> api_base_url c | Some v \<Rightarrow> v),
      database = (case user_database u of None \<Rightarrow> database c | Some v \<Rightarrow> v),
      thresholds = (case user_thresholds u of None \<Rightarrow> thresholds c | Some v \<Rightarrow> v)\<rparr>"

definition load_config ::
  "string \<Rightarrow> (string \<Rightarrow> config_file_state) \<Rightarrow> string option \<Rightarrow> py_exception + config" where
  "load_config db_password files config_file =
     (case config_file of
        None \<Rightarrow> Inr (default_config db_password)
      | Some path \<Rightarrow>
          if path = [] then Inr (default_config db_password)
          else (case files path of
                  Absent \<Rightarrow> Inr (default_config db_password)
                | LoadRaises e \<Rightarrow> Inl e
                | Document u \<Rightarrow> Inr (update_config (default_config db_password) u)))"

text \<open>\<^verbatim>\<open>self.config['thresholds'][k]\<close>\<close>

definition threshold :: "config \<Rightarrow> string \<Rightarrow> py_exception + rat" where
  "threshold cfg k =
     (case map_of (thresholds cfg) k of
        None \<Rightarrow> Inl (Exc KeyError ([CHR 0x27] @ k @ [CHR 0x27]))
      | Some v \<Rightarrow> Inr v)"

section \<open>External calls\<close>

text \<open>
  Every call that leaves the process is named, and an assessor returns the calls it made, in
  order, beside its result: a probe was attempted when its call is in that list.
\<close>

datatype call =
    Mvn_test | Mvn_jacoco_report | Mvn_spotbugs_check | Mvn_dependency_check
  | Db_connect | Db_cursor | Db_select_1 | Db_schema_query | Db_count_inputs | Db_count_outputs
  | Db_join_query | Db_is_connected | Db_cursor_close | Db_connection_close
  | Http_health | Http_financial_data | Http_dcf_calculate
  | Pgrep | Ps_rss | Df | Uptime

type_synonym 'a io = "call list \<times> (py_exception + 'a)"

text \<open>Sequencing: an exception that leaves a step ends the sequence.\<close>

definition io_bind :: "'a io \<Rightarrow> ('a \<Rightarrow> 'b io) \<Rightarrow> 'b io" where
  "io_bind m f =
     (case m of
        (tr, Inl e) \<Rightarrow> (tr, Inl e)
      | (tr, Inr x) \<Rightarrow> (case f x of (tr', y) \<Rightarrow> (tr @ tr', y)))"

text \<open>\<^verbatim>\<open>subprocess.run(..., capture_output=True, text=True)\<close>: return code and output, or a raise.\<close>

datatype proc_outcome = Completed int string | ProcRaised py_exception

text \<open>\<^verbatim>\<open>requests.get\<close>/\<^verbatim>\<open>requests.post\<close>: status code and body text, or a raise.\<close>

datatype http_outcome = Response int string | HttpRaised py_exception

section \<open>Code quality (\<^verbatim>\<open>assess_code_quality\<close>)\<close>

record code_quality_env =
  mvn_test :: proc_outcome
  mvn_jacoco_report :: proc_outcome
  mvn_spotbugs_check :: proc_outcome
  mvn_dependency_check :: proc_outcome

text \<open>First \<^verbatim>\<open>try\<close>: \<^verbatim>\<open>except subprocess.TimeoutExpired\<close>, then \<^verbatim>\<open>except Exception\<close>.\<close>

definition backend_tests_probe :: "code_quality_env \<Rightarrow> category_result \<Rightarrow> category_result io" where
  "backend_tests_probe env r =
     ([Mvn_test],
      Inr (case mvn_test env of
             Completed returncode out \<Rightarrow>
               if returncode = 0
               then add_score 30 (set_detail ''backend_tests'' ''PASSED'' r)
               else add_issue ''Backend tests failing'' (set_detail ''backend_tests'' ''FAILED'' r)
           | ProcRaised e \<Rightarrow>
               if exc_class_of e = TimeoutExpired
               then add_issue ''Backend tests timed out'' (set_detail ''backend_tests'' ''TIMEOUT'' r)
               else add_issue (''Backend test execution error: '' @ exc_str e)
                      (set_detail ''backend_tests'' (''ERROR: '' @ exc_str e) r)))"

definition test_coverage_probe :: "code_quality_env \<Rightarrow> category_result \<Rightarrow> category_result io" where
  "test_coverage_probe env r =
     ([Mvn_jacoco_report],
      Inr (case mvn_jacoco_report env of
             Completed returncode out \<Rightarrow>
               if returncode = 0
               then add_score 20 (set_detail ''test_coverage'' ''GENERATED'' r)
               else add_issue ''Test coverage report generation failed''
                      (set_detail ''test_coverage'' ''FAILED'' r)
           | ProcRaised e \<Rightarrow>
               add_issue (''Coverage report error: '' @ exc_str e)
                 (set_detail ''test_coverage'' (''ERROR: '' @ exc_str e) r)))"

definition static_analysis_probe :: "code_quality_env \<Rightarrow> category_result \<Rightarrow> category_result io" where
  "static_analysis_probe env r =
     ([Mvn_spotbugs_check],
      Inr (case mvn_spotbugs_check env of
             Completed returncode out \<Rightarrow>
               if returncode = 0
               then add_score 25 (set_detail ''static_analysis'' ''PASSED'' r)
               else add_issue ''Static analysis found issues''
                      (set_detail ''static_analysis'' ''ISSUES_FOUND'' r)
           | ProcRaised e \<Rightarrow>
               add_issue (''Static analysis error: '' @ exc_str e)
                 (set_detail ''static_analysis'' (''ERROR: '' @ exc_str e) r)))"

definition security_scan_probe :: "code_quality_env \<Rightarrow> category_result \<Rightarrow> category_result io" where
  "security_scan_probe env r =
     ([Mvn_dependency_check],
      Inr (case mvn_dependency_check env of
             Completed returncode out \<Rightarrow>
               if returncode = 0
               then add_score 25 (set_detail ''security_scan'' ''PASSED'' r)
               else add_issue ''Security vulnerabilities detected''
                      (set_detail ''security_scan'' ''VULNERABILITIES_FOUND'' r)
           | ProcRaised e \<Rightarrow>
               add_issue (''Security scan error: '' @ exc_str e)
                 (set_detail ''security_scan'' (''ERROR: '' @ exc_str e) r)))"

definition assess_code_quality :: "code_quality_env \<Rightarrow> category_result io" where
  "assess_code_quality env =
     io_bind (io_bind (io_bind (backend_tests_probe env initial_result)
       (test_coverage_probe env)) (static_analysis_probe env)) (security_scan_probe env)"

section \<open>Database (\<^verbatim>\<open>assess_database_readiness\<close>)\<close>

text \<open>A row of the schema query; only \<open>data_type\<close> (\<^verbatim>\<open>col[2]\<close>) is read.\<close>

record column_row =
  table_name :: string
  column_name :: string
  data_type :: string
  numeric_precision :: "int option"
  numeric_scale :: "int option"

text \<open>
  What the database does at each step of the one \<^verbatim>\<open>try\<close> block: \<open>None\<close> or a value when the
  step returns, an exception when it raises. A count is \<^verbatim>\<open>execute\<close> followed by
  \<^verbatim>\<open>fetchone()[0]\<close>; \<open>db_join_query\<close> returns the elapsed time in milliseconds.
\<close>

record database_env =
  db_connect :: "py_exception option"
  db_cursor :: "py_exception option"
  db_select_1 :: "py_exception option"
  db_schema_query :: "py_exception + column_row list"
  db_count_inputs :: "py_exception + int"
  db_count_outputs :: "py_exception + int"
  db_join_query :: "py_exception + rat"
  db_is_connected :: bool
  db_cursor_close :: "py_exception option"
  db_connection_close :: "py_exception option"

text \<open>
  The state inside the \<^verbatim>\<open>try\<close> block: the calls made, the dictionary as mutated so far, and
  the exception in flight, if any. A step runs only while nothing has been raised.
\<close>

type_synonym try_state = "call list \<times> category_result \<times> py_exception option"

definition try_step :: "try_state \<Rightarrow> (category_result \<Rightarrow> try_state) \<Rightarrow> try_state" where
  "try_step st f =
     (case st of
        (tr, r, Some e) \<Rightarrow> (tr, r, Some e)
      | (tr, r, None) \<Rightarrow> (case f r of (tr', r', x) \<Rightarrow> (tr @ tr', r', x)))"

definition db_connectivity_probe :: "database_env \<Rightarrow> category_result \<Rightarrow> try_state" where
  "db_connectivity_probe env r =
     (case db_connect env of
        Some e \<Rightarrow> ([Db_connect], r, Some e)
      | None \<Rightarrow>
          (case db_cursor env of
             Some e \<Rightarrow> ([Db_connect, Db_cursor], r, Some e)
           | None \<Rightarrow>
               (case db_select_1 env of
                  Some e \<Rightarrow> ([Db_connect, Db_cursor, Db_select_1], r, Some e)
                | None \<Rightarrow>
                    ([Db_connect, Db_cursor, Db_select_1],
                     add_score 20 (set_detail ''connectivity'' ''OK'' r), None))))"

definition db_columns_probe :: "database_env \<Rightarrow> category_result \<Rightarrow> try_state" where
  "db_columns_probe env r =
     (case db_schema_query env of
        Inl e \<Rightarrow> ([Db_schema_query], r, Some e)
      | Inr columns \<Rightarrow>
          (let decimal_columns = filter (\<lambda>col. data_type col = ''decimal'') columns in
           if decimal_columns \<noteq> []
           then ([Db_schema_query],
                 add_score 30 (set_detail ''bigdecimal_columns''
                   (str_nat (length decimal_columns) @ '' found'') r), None)
           else ([Db_schema_query],
                 add_issue ''BigDecimal columns not implemented''
                   (set_detail ''bigdecimal_columns'' ''NOT_FOUND'' r), None)))"

definition db_data_integrity_probe :: "database_env \<Rightarrow> category_result \<Rightarrow> try_state" where
  "db_data_integrity_probe env r =
     (case db_count_inputs env of
        Inl e \<Rightarrow> ([Db_count_inputs], r, Some e)
      | Inr input_count \<Rightarrow>
          (case db_count_outputs env of
             Inl e \<Rightarrow> ([Db_count_inputs, Db_count_outputs], r, Some e)
           | Inr output_count \<Rightarrow>
               if input_count > 0 \<and> output_count > 0
               then ([Db_count_inputs, Db_count_outputs],
                     add_score 25 (set_detail ''data_integrity''
                       (''Inputs: '' @ str_int input_count @ '', Outputs: '' @ str_int output_count) r),
                     None)
               else ([Db_count_inputs, Db_count_outputs],
                     add_issue ''No test data available''
                       (set_detail ''data_integrity'' ''NO_DATA'' r), None)))"

definition db_query_performance_probe ::
  "config \<Rightarrow> database_env \<Rightarrow> category_result \<Rightarrow> try_state" where
  "db_query_performance_probe cfg env r =
     (case db_join_query env of
        Inl e \<Rightarrow> ([Db_join_query], r, Some e)
      | Inr query_time_ms \<Rightarrow>
          (case threshold cfg ''query_time_ms'' of
             Inl e \<Rightarrow> ([Db_join_query], r, Some e)
           | Inr limit \<Rightarrow>
               if query_time_ms < limit
               then ([Db_join_query],
                     add_score 25 (set_detail ''query_performance''
                       (format_2f query_time_ms @ ''ms'') r), None)
               else ([Db_join_query],
                     add_issue (''Query performance below threshold: '' @
                                format_2f query_time_ms @ ''ms'')
                       (set_detail ''query_performance''
                          (format_2f query_time_ms @ ''ms (SLOW)'') r), None)))"

text \<open>The body of the \<^verbatim>\<open>try\<close>.\<close>

definition db_try_body :: "config \<Rightarrow> database_env \<Rightarrow> category_result \<Rightarrow> try_state" where
  "db_try_body cfg env r =
     try_step (try_step (try_step (db_connectivity_probe env r)
       (db_columns_probe env)) (db_data_integrity_probe env)) (db_query_performance_probe cfg env)"

text \<open>\<^verbatim>\<open>except Error as e\<close>, then \<^verbatim>\<open>except Exception as e\<close>.\<close>

definition db_except :: "py_exception \<Rightarrow> category_result \<Rightarrow> category_result" where
  "db_except e r =
     (if exc_class_of e = MySQLError
      then add_issue (''Database connection error: '' @ exc_str e)
             (set_detail ''database_error'' (exc_str e) r)
      else add_issue (''Unexpected database error: '' @ exc_str e)
             (set_detail ''unexpected_error'' (exc_str e) r))"

text \<open>
  The \<^verbatim>\<open>finally\<close> clause. \<^verbatim>\<open>connection\<close> is a local once \<^verbatim>\<open>connect\<close> has returned;
  \<^verbatim>\<open>cursor\<close> is one once \<^verbatim>\<open>connection.cursor()\<close> has returned, and closing it before that
  raises \<^verbatim>\<open>UnboundLocalError\<close>. An exception raised here leaves the assessor.
\<close>

definition db_finally :: "database_env \<Rightarrow> call list \<times> py_exception option" where
  "db_finally env =
     (if db_connect env = None then
        (if db_is_connected env then
           (if db_cursor env \<noteq> None then
              ([Db_is_connected],
               Some (Exc UnboundLocalError
                 ''cannot access local variable 'cursor' where it is not associated with a value''))
            else (case db_cursor_close env of
                    Some e \<Rightarrow> ([Db_is_connected, Db_cursor_close], Some e)
                  | None \<Rightarrow>
                      (case db_connection_close env of
                         Some e \<Rightarrow> ([Db_is_connected, Db_cursor_close, Db_connection_close], Some e)
                       | None \<Rightarrow> ([Db_is_connected, Db_cursor_close, Db_connection_close], None))))
         else ([Db_is_connected], None))
      else ([], None))"

definition assess_database_readiness :: "config \<Rightarrow> database_env \<Rightarrow> category_result io" where
  "assess_database_readiness cfg env =
     (case db_try_body cfg env initial_result of
        (tr, r, raised) \<Rightarrow>
          (let r' = (case raised of None \<Rightarrow> r | Some e \<Rightarrow> db_except e r) in
           case db_finally env of
             (tr', Some e) \<Rightarrow> (tr @ tr', Inl e)
           | (tr', None) \<Rightarrow> (tr @ tr', Inr r')))"

section \<open>API (\<^verbatim>\<open>assess_api_readiness\<close>)\<close>

text \<open>The three requests; \<open>dcf_elapsed_ms\<close> is the time measured around the third.\<close>

record api_env =
  http_health :: http_outcome
  http_financial_data :: http_outcome
  http_dcf_calculate :: http_outcome
  dcf_elapsed_ms :: rat

text \<open>
  Each \<^verbatim>\<open>try\<close> of this assessor has the single clause
  \<^verbatim>\<open>except requests.exceptions.RequestException\<close>: any other exception leaves the assessor.
\<close>

definition health_check_probe :: "api_env \<Rightarrow> category_result \<Rightarrow> category_result io" where
  "health_check_probe env r =
     ([Http_health],
      case http_health env of
        Response status_code body \<Rightarrow>
          if status_code = 200
          then Inr (add_score 25 (set_detail ''health_check'' ''OK'' r))
          else Inr (add_issue (''Health check failed: '' @ str_int status_code)
                      (set_detail ''health_check'' (''HTTP '' @ str_int status_code) r))
      | HttpRaised e \<Rightarrow>
          if exc_class_of e = RequestException
          then Inr (add_issue (''Health check error: '' @ exc_str e)
                      (set_detail ''health_check'' (''ERROR: '' @ exc_str e) r))
          else Inl e)"

text \<open>The scientific-notation check, then the decimal check, on the same response text.\<close>

definition serialization_check :: "string \<Rightarrow> category_result \<Rightarrow> category_result" where
  "serialization_check response_text r =
     (if str_in ''e'' (lower response_text) \<or> str_in ''E'' response_text
      then add_issue ''API responses contain scientific notation''
             (set_detail ''serialization'' ''SCIENTIFIC_NOTATION_DETECTED'' r)
      else add_score 25 (set_detail ''serialization'' ''OK'' r))"

definition decimal_format_check :: "string \<Rightarrow> category_result \<Rightarrow> category_result" where
  "decimal_format_check response_text r =
     (if str_in [CHR 0x22] response_text \<and> str_in ''.'' response_text
      then add_score 25 (set_detail ''decimal_format'' ''OK'' r)
      else add_issue ''API responses missing decimal values''
             (set_detail ''decimal_format'' ''NO_DECIMALS'' r))"

definition financial_data_probe :: "api_env \<Rightarrow> category_result \<Rightarrow> category_result io" where
  "financial_data_probe env r =
     ([Http_financial_data],
      case http_financial_data env of
        Response status_code response_text \<Rightarrow>
          if status_code = 200
          then Inr (decimal_format_check response_text (serialization_check response_text r))
          else Inr (add_issue (''Financial data endpoint failed: '' @ str_int status_code)
                      (set_detail ''financial_endpoint'' (''HTTP '' @ str_int status_code) r))
      | HttpRaised e \<Rightarrow>
          if exc_class_of e = RequestException
          then Inr (add_issue (''Financial endpoint error: '' @ exc_str e)
                      (set_detail ''financial_endpoint'' (''ERROR: '' @ exc_str e) r))
          else Inl e)"

definition dcf_calculation_probe :: "config \<Rightarrow> api_env \<Rightarrow> category_result \<Rightarrow> category_result io" where
  "dcf_calculation_probe cfg env r =
     ([Http_dcf_calculate],
      case http_dcf_calculate env of
        Response status_code body \<Rightarrow>
          (let response_time_ms = dcf_elapsed_ms env in
           if status_code = 200
           then (case threshold cfg ''response_time_ms'' of
                   Inl e \<Rightarrow> Inl e
                 | Inr limit \<Rightarrow>
                     if response_time_ms < limit
                     then Inr (add_score 25 (set_detail ''dcf_performance''
                                 (format_2f response_time_ms @ ''ms'') r))
                     else Inr (add_issue (''DCF calculation too slow: '' @
                                          format_2f response_time_ms @ ''ms'')
                                 (set_detail ''dcf_performance''
                                    (format_2f response_time_ms @ ''ms (SLOW)'') r)))
           else Inr (add_issue (''DCF calculation failed: '' @ str_int status_code)
                       (set_detail ''dcf_endpoint'' (''HTTP '' @ str_int status_code) r)))
      | HttpRaised e \<Rightarrow>
          if exc_class_of e = RequestException
          then Inr (add_issue (''DCF endpoint error: '' @ exc_str e)
                      (set_detail ''dcf_endpoint'' (''ERROR: '' @ exc_str e) r))
          else Inl e)"

definition assess_api_readiness :: "config \<Rightarrow> api_env \<Rightarrow> category_result io" where
  "assess_api_readiness cfg env =
     io_bind (io_bind (health_check_probe env initial_result)
       (financial_data_probe env)) (dcf_calculation_probe cfg env)"

section \<open>System resources (\<^verbatim>\<open>assess_system_resources\<close>)\<close>

text \<open>\<open>ps_rss\<close> is given the process id the script read from \<^verbatim>\<open>pgrep\<close>.\<close>

record system_env =
  pgrep :: proc_outcome
  ps_rss :: "string \<Rightarrow> proc_outcome"
  df :: proc_outcome
  uptime :: proc_outcome

definition resource_check_except :: "py_exception \<Rightarrow> category_result \<Rightarrow> category_result" where
  "resource_check_except e r =
     add_issue (''Resource check error: '' @ exc_str e)
       (set_detail ''resource_check'' (''ERROR: '' @ exc_str e) r)"

text \<open>What follows \<^verbatim>\<open>memory_info = subprocess.run(...)\<close> once it has returned.\<close>

definition memory_reading :: "config \<Rightarrow> string \<Rightarrow> category_result \<Rightarrow> category_result" where
  "memory_reading cfg out r =
     (if strip out \<noteq> [] then
        (case py_int (strip out) of
           Inl e \<Rightarrow> resource_check_except e r
         | Inr memory_kb \<Rightarrow>
             (let memory_mb = memory_kb div 1024 in
              case threshold cfg ''memory_usage_mb'' of
                Inl e \<Rightarrow> resource_check_except e r
              | Inr limit \<Rightarrow>
                  if of_int memory_mb < limit
                  then add_score 40 (set_detail ''memory_usage'' (str_int memory_mb @ ''MB'') r)
                  else add_issue (''High memory usage: '' @ str_int memory_mb @ ''MB'')
                         (set_detail ''memory_usage'' (str_int memory_mb @ ''MB (HIGH)'') r)))
      else add_issue ''Could not determine memory usage'' (set_detail ''memory_usage'' ''UNKNOWN'' r))"

definition memory_probe :: "config \<Rightarrow> system_env \<Rightarrow> category_result \<Rightarrow> category_result io" where
  "memory_probe cfg env r =
     (case pgrep env of
        ProcRaised e \<Rightarrow> ([Pgrep], Inr (resource_check_except e r))
      | Completed returncode out \<Rightarrow>
          if strip out \<noteq> [] then
            (case index (split_sep CHR 0x0A (strip out)) 0 of
               Inl e \<Rightarrow> ([Pgrep], Inr (resource_check_except e r))
             | Inr pid \<Rightarrow>
                 (case ps_rss env pid of
                    ProcRaised e \<Rightarrow> ([Pgrep, Ps_rss], Inr (resource_check_except e r))
                  | Completed returncode' out' \<Rightarrow> ([Pgrep, Ps_rss], Inr (memory_reading cfg out' r))))
          else ([Pgrep],
                Inr (add_issue ''Application not running''
                       (set_detail ''java_process'' ''NOT_RUNNING'' r))))"

definition disk_check_except :: "py_exception \<Rightarrow> category_result \<Rightarrow> category_result" where
  "disk_check_except e r =
     add_issue (''Disk space check error: '' @ exc_str e)
       (set_detail ''disk_check'' (''ERROR: '' @ exc_str e) r)"

text \<open>What is done with the second line of \<^verbatim>\<open>df -h .\<close>.\<close>

definition disk_reading :: "string \<Rightarrow> category_result \<Rightarrow> category_result" where
  "disk_reading line r =
     (let disk_data = split_ws line in
      case index disk_data 3 of
        Inl e \<Rightarrow> disk_check_except e r
      | Inr available \<Rightarrow>
          (case index disk_data 4 of
             Inl e \<Rightarrow> disk_check_except e r
           | Inr field \<Rightarrow>
               (let usage_percent = rstrip_char CHR ''%'' field in
                case py_int usage_percent of
                  Inl e \<Rightarrow> disk_check_except e r
                | Inr used \<Rightarrow>
                    if used < 90
                    then add_score 30 (set_detail ''disk_space''
                           (available @ '' available ('' @ usage_percent @ ''% used)'') r)
                    else add_issue (''Low disk space: '' @ usage_percent @ ''% used'')
                           (set_detail ''disk_space''
                              (available @ '' available ('' @ usage_percent @ ''% used) - LOW'') r))))"

text \<open>No \<^verbatim>\<open>else\<close> follows either \<^verbatim>\<open>if\<close> of this block.\<close>

definition disk_space_probe :: "system_env \<Rightarrow> category_result \<Rightarrow> category_result io" where
  "disk_space_probe env r =
     ([Df],
      Inr (case df env of
             ProcRaised e \<Rightarrow> disk_check_except e r
           | Completed returncode out \<Rightarrow>
               if returncode = 0 then
                 (let lines = split_sep CHR 0x0A (strip out) in
                  if length lines > 1
                  then (case index lines 1 of
                          Inl e \<Rightarrow> disk_check_except e r
                        | Inr line \<Rightarrow> disk_reading line r)
                  else r)
               else r))"

text \<open>The handler of this block records a detail and appends no issue.\<close>

definition system_load_probe :: "system_env \<Rightarrow> category_result \<Rightarrow> category_result io" where
  "system_load_probe env r =
     ([Uptime],
      Inr (case uptime env of
             ProcRaised e \<Rightarrow> set_detail ''load_check'' (''ERROR: '' @ exc_str e) r
           | Completed returncode out \<Rightarrow>
               if returncode = 0
               then add_score 30 (set_detail ''system_load'' (strip out) r)
               else r))"

definition assess_system_resources :: "config \<Rightarrow> system_env \<Rightarrow> category_result io" where
  "assess_system_resources cfg env =
     io_bind (io_bind (memory_probe cfg env initial_result)
       (disk_space_probe env)) (system_load_probe env)"

section \<open>The run (\<^verbatim>\<open>run_assessment\<close>, \<^verbatim>\<open>save_report\<close>, \<^verbatim>\<open>main\<close>)\<close>

text \<open>
  Everything outside the process that one invocation meets. Writing to standard output is
  taken to succeed.
\<close>

record environment =
  argv :: "string list"
  files :: "string \<Rightarrow> config_file_state"
  env_db_password :: string
  now :: string
  code_quality_env :: code_quality_env
  database_env :: database_env
  api_env :: api_env
  system_env :: system_env
  save_report_raises :: "py_exception option"

text \<open>\<^verbatim>\<open>self.results\<close> as the constructor leaves it.\<close>

definition initial_results :: "string \<Rightarrow> assessment_results" where
  "initial_results ts =
     \<lparr>timestamp = ts, overall_status = UNKNOWN, readiness_score = 0, categories = [],
      critical_issues = [], warnings = [], recommendations = []\<rparr>"

text \<open>The second half of \<^verbatim>\<open>run_assessment\<close>, once the four categories are stored.\<close>

definition finalize :: "assessment_results \<Rightarrow> py_exception + assessment_results" where
  "finalize res =
     (let cats = categories res;
          rs = compute_readiness_score cats;
          (crit, warn) = classify_categories cats (critical_issues res, warnings res);
          st = determine_status rs crit
      in case generate_recommendations cats of
           Inl e \<Rightarrow> Inl e
         | Inr recs \<Rightarrow>
             Inr (res\<lparr>readiness_score := rs, critical_issues := crit, warnings := warn,
                      overall_status := st, recommendations := recs\<rparr>))"

definition run_assessment :: "config \<Rightarrow> environment \<Rightarrow> assessment_results io" where
  "run_assessment cfg w =
     io_bind (assess_code_quality (code_quality_env w)) (\<lambda>cq.
     io_bind (assess_database_readiness cfg (database_env w)) (\<lambda>db.
     io_bind (assess_api_readiness cfg (api_env w)) (\<lambda>api.
     io_bind (assess_system_resources cfg (system_env w)) (\<lambda>sys.
       ([], finalize ((initial_results (now w))
              \<lparr>categories := [(''code_quality'', cq), (''database'', db), (''api'', api),
                              (''system_resources'', sys)]\<rparr>))))))"

text \<open>How the process ends: \<^verbatim>\<open>sys.exit(code)\<close>, or an exception nothing caught.\<close>

datatype process_end = SysExit int | Uncaught py_exception

text \<open>The \<^verbatim>\<open>if\<close>/\<^verbatim>\<open>elif\<close>/\<^verbatim>\<open>else\<close> at the end of \<^verbatim>\<open>main\<close>.\<close>

definition exit_code :: "status \<Rightarrow> int" where
  "exit_code st = (if st = READY then 0 else if st = READY_WITH_WARNINGS then 1 else 2)"

definition main :: "environment \<Rightarrow> call list \<times> process_end" where
  "main w =
     (let config_file = (if length (argv w) > 1 then Some (argv w ! 1) else None) in
      case load_config (env_db_password w) (files w) config_file of
        Inl e \<Rightarrow> ([], Uncaught e)
      | Inr cfg \<Rightarrow>
          (case run_assessment cfg w of
             (tr, Inl e) \<Rightarrow> (tr, Uncaught e)
           | (tr, Inr results) \<Rightarrow>
               (case save_report_raises w of
                  Some e \<Rightarrow> (tr, Uncaught e)
                | None \<Rightarrow> (tr, SysExit (exit_code (overall_status results))))))"

section \<open>Sample environments\<close>

text \<open>An environment in which every probe succeeds, and what the run returns there.\<close>

definition healthy_code_quality :: code_quality_env where
  "healthy_code_quality =
     \<lparr>mvn_test = Completed 0 [], mvn_jacoco_report = Completed 0 [],
      mvn_spotbugs_check = Completed 0 [], mvn_dependency_check = Completed 0 []\<rparr>"

definition healthy_database :: database_env where
  "healthy_database =
     \<lparr>db_connect = None, db_cursor = None, db_select_1 = None,
      db_schema_query = Inr [\<lparr>table_name = ''dcf_inputs'', column_name = ''discount_rate'',
         data_type = ''decimal'', numeric_precision = Some 20, numeric_scale = Some 6\<rparr>],
      db_count_inputs = Inr 12, db_count_outputs = Inr 12, db_join_query = Inr (5 / 2),
      db_is_connected = True, db_cursor_close = None, db_connection_close = None\<rparr>"

definition healthy_api :: api_env where
  "healthy_api =
     \<lparr>http_health = Response 200 ''UP'',
      http_financial_data = Response 200 [CHR 0x22, CHR ''1'', CHR ''.'', CHR ''5'', CHR 0x22],
      http_dcf_calculate = Response 200 ''{}'', dcf_elapsed_ms = 120\<rparr>"

definition healthy_system :: system_env where
  "healthy_system =
     \<lparr>pgrep = Completed 0 [CHR ''4'', CHR ''2'', CHR 0x0A],
      ps_rss = (\<lambda>pid. Completed 0 (''524288'' @ [CHR 0x0A])),
      df = Completed 0 (''FS Size Used Avail Use% Mnt'' @ [CHR 0x0A] @ ''/dev/sda1 100G 40G 60G 40% /'' @ [CHR 0x0A]),
      uptime = Completed 0 (''up 1 day'' @ [CHR 0x0A])\<rparr>"

definition healthy_env :: environment where
  "healthy_env =
     \<lparr>argv = [''assess.py''], files = (\<lambda>path. Absent), env_db_password = [],
      now = ''2025-01-01T00:00:00'',
      code_quality_env = healthy_code_quality, database_env = healthy_database,
      api_env = healthy_api, system_env = healthy_system, save_report_raises = None\<rparr>"


definition healthy_categories :: "(string \<times> category_result) list" where
  "healthy_categories =
     [(''code_quality'',
       \<lparr>score = 100, max_score = 100,
        details = [(''backend_tests'', ''PASSED''), (''test_coverage'', ''GENERATED''),
                   (''static_analysis'', ''PASSED''), (''security_scan'', ''PASSED'')],
        issues = []\<rparr>),
      (''database'',
       \<lparr>score = 100, max_score = 100,
        details = [(''connectivity'', ''OK''), (''bigdecimal_columns'', ''1 found''),
                   (''data_integrity'', ''Inputs: 12, Outputs: 12''),
                   (''query_performance'', ''2.50ms'')],
        issues = []\<rparr>),
      (''api'',
       \<lparr>score = 100, max_score = 100,
        details = [(''health_check'', ''OK''), (''serialization'', ''OK''),
                   (''decimal_format'', ''OK''), (''dcf_performance'', ''120.00ms'')],
        issues = []\<rparr>),
      (''system_resources'',
       \<lparr>score = 100, max_score = 100,
        details = [(''memory_usage'', ''512MB''),
                   (''disk_space'', ''60G available (40% used)''),
                   (''system_load'', ''up 1 day'')],
        issues = []\<rparr>)]"

definition healthy_results :: assessment_results where
  "healthy_results =
     \<lparr>timestamp = ''2025-01-01T00:00:00'', overall_status = READY, readiness_score = 100,
      categories = healthy_categories, critical_issues = [], warnings = [],
      recommendations = [ready_opening, ''Proceed with deployment checklist'']\<rparr>"


text \<open>Backend tests exit with status 1; everything else as in the healthy environment.\<close>

definition tests_failing_env :: environment where
  "tests_failing_env =
     healthy_env\<lparr>code_quality_env := healthy_code_quality\<lparr>mvn_test := Completed 1 []\<rparr>\<rparr>"

definition tests_failing_results :: assessment_results where
  "tests_failing_results =
     \<lparr>timestamp = ''2025-01-01T00:00:00'', overall_status = READY, readiness_score = 185 / 2,
      categories =
        (''code_quality'',
         \<lparr>score = 70, max_score = 100,
          details = [(''backend_tests'', ''FAILED''), (''test_coverage'', ''GENERATED''),
                     (''static_analysis'', ''PASSED''), (''security_scan'', ''PASSED'')],
          issues = [''Backend tests failing'']\<rparr>) # tl healthy_categories,
      critical_issues = [], warnings = [''Backend tests failing''],
      recommendations = [ready_opening, ''Proceed with deployment checklist'',
                         ''Fix failing tests before deployment'']\<rparr>"

text \<open>
  The calculation endpoint answers after five seconds and the application holds 4096 MB;
  everything else as in the healthy environment.
\<close>

definition slow_and_memory_env :: environment where
  "slow_and_memory_env =
     healthy_env\<lparr>api_env := healthy_api\<lparr>dcf_elapsed_ms := 5000\<rparr>,
                 system_env := healthy_system\<lparr>ps_rss := (\<lambda>pid. Completed 0 ''4194304'')\<rparr>\<rparr>"

definition slow_and_memory_results :: assessment_results where
  "slow_and_memory_results =
     \<lparr>timestamp = ''2025-01-01T00:00:00'', overall_status = READY_WITH_WARNINGS,
      readiness_score = 335 / 4,
      categories =
        take 2 healthy_categories @
        [(''api'',
          \<lparr>score = 75, max_score = 100,
           details = [(''health_check'', ''OK''), (''serialization'', ''OK''),
                      (''decimal_format'', ''OK''), (''dcf_performance'', ''5000.00ms (SLOW)'')],
           issues = [''DCF calculation too slow: 5000.00ms'']\<rparr>),
         (''system_resources'',
          \<lparr>score = 60, max_score = 100,
           details = [(''memory_usage'', ''4096MB (HIGH)''),
                      (''disk_space'', ''60G available (40% used)''),
                      (''system_load'', ''up 1 day'')],
           issues = [''High memory usage: 4096MB'']\<rparr>)],
      critical_issues = [],
      warnings = [''DCF calculation too slow: 5000.00ms'', ''High memory usage: 4096MB''],
      recommendations =
        [warnings_opening, ''Address warnings before deployment'',
         ''Ensure rollback procedures are ready'',
         ''Optimize performance before deployment'',
         ''Consider load testing with BigDecimal operations'',
         ''Monitor memory usage closely during deployment'',
         ''Consider increasing JVM heap size'']\<rparr>"

text \<open>The database refuses the connection; everything else as in the healthy environment.\<close>

definition db_down_env :: environment where
  "db_down_env =
     healthy_env\<lparr>database_env :=
       healthy_database\<lparr>db_connect := Some (Exc MySQLError ''2003: connection refused'')\<rparr>\<rparr>"

definition db_down_results :: assessment_results where
  "db_down_results =
     \<lparr>timestamp = ''2025-01-01T00:00:00'', overall_status = READY_WITH_WARNINGS,
      readiness_score = 75,
      categories =
        [hd healthy_categories,
         (''database'',
          \<lparr>score = 0, max_score = 100,
           details = [(''database_error'', ''2003: connection refused'')],
           issues = [''Database connection error: 2003: connection refused'']\<rparr>)] @
        drop 2 healthy_categories,
      critical_issues = [''Database connection error: 2003: connection refused''],
      warnings = [],
      recommendations =
        [warnings_opening, ''Address warnings before deployment'',
         ''Ensure rollback procedures are ready''] @ database_block\<rparr>"

text \<open>
  The coverage report command exits with status 1; everything else as in the healthy
  environment.
\<close>

definition coverage_failed_env :: environment where
  "coverage_failed_env =
     healthy_env\<lparr>code_quality_env :=
       healthy_code_quality\<lparr>mvn_jacoco_report := Completed 1 []\<rparr>\<rparr>"

definition coverage_failed_results :: assessment_results where
  "coverage_failed_results =
     \<lparr>timestamp = ''2025-01-01T00:00:00'', overall_status = READY_WITH_WARNINGS,
      readiness_score = 95,
      categories =
        (''code_quality'',
         \<lparr>score = 80, max_score = 100,
          details = [(''backend_tests'', ''PASSED''), (''test_coverage'', ''FAILED''),
                     (''static_analysis'', ''PASSED''), (''security_scan'', ''PASSED'')],
          issues = [''Test coverage report generation failed'']\<rparr>) # tl healthy_categories,
      critical_issues = [''Test coverage report generation failed''], warnings = [],
      recommendations = [ready_opening, ''Proceed with deployment checklist''] @ test_block\<rparr>"


definition health_down_api :: api_env where
  "health_down_api =
     healthy_api\<lparr>http_health := HttpRaised (Exc RequestException ''connection refused'')\<rparr>"


section \<open>Basic facts\<close>

lemma str_in_sublist: "str_in sub s \<longleftrightarrow> sublist sub s"
  by (induction s) (auto simp: sublist_Cons_right)

lemma classify_issues_filter:
  "classify_issues xs (c, w) =
     (c @ filter is_critical xs, w @ filter (\<lambda>i. \<not> is_critical i) xs)"
  by (induction xs arbitrary: c w) simp_all

lemma classify_categories_filter:
  "classify_categories cats (c, w) =
     (c @ filter is_critical (all_issues_of cats),
      w @ filter (\<lambda>i. \<not> is_critical i) (all_issues_of cats))"
proof (induction cats arbitrary: c w)
  case Nil
  show ?case by (simp add: all_issues_of_def)
next
  case (Cons p cats)
  obtain name cat where p: "p = (name, cat)" by (cases p)
  show ?case
    by (simp add: p classify_issues_filter Cons.IH) (simp add: all_issues_of_def)
qed

lemma io_bind_Inr:
  "snd (io_bind m f) = Inr y \<longleftrightarrow> (\<exists>x. snd m = Inr x \<and> snd (f x) = Inr y)"
  by (cases m; cases "snd m") (auto simp: io_bind_def split: prod.splits)

lemma finalize_Inr:
  assumes "finalize r0 = Inr res"
  shows "categories res = categories r0"
    and "timestamp res = timestamp r0"
    and "readiness_score res = compute_readiness_score (categories r0)"
    and "critical_issues res = critical_issues r0 @ filter is_critical (all_issues_of (categories r0))"
    and "warnings res = warnings r0 @ filter (\<lambda>i. \<not> is_critical i) (all_issues_of (categories r0))"
    and "overall_status res = determine_status (readiness_score res) (critical_issues res)"
    and "generate_recommendations (categories r0) = Inr (recommendations res)"
  using assms
  by (auto simp: finalize_def Let_def classify_categories_filter split: sum.splits)

lemma run_assessment_Inr:
  assumes "snd (run_assessment cfg w) = Inr res"
  obtains cq db api sys where
    "snd (assess_code_quality (code_quality_env w)) = Inr cq"
    "snd (assess_database_readiness cfg (database_env w)) = Inr db"
    "snd (assess_api_readiness cfg (api_env w)) = Inr api"
    "snd (assess_system_resources cfg (system_env w)) = Inr sys"
    "categories res = [(''code_quality'', cq), (''database'', db), (''api'', api), (''system_resources'', sys)]"
    "readiness_score res = compute_readiness_score (categories res)"
    "critical_issues res = filter is_critical (all_issues_of (categories res))"
    "warnings res = filter (\<lambda>i. \<not> is_critical i) (all_issues_of (categories res))"
    "overall_status res = determine_status (readiness_score res) (critical_issues res)"
    "generate_recommendations (categories res) = Inr (recommendations res)"
proof -
  from assms obtain cq db api sys where
    a: "snd (assess_code_quality (code_quality_env w)) = Inr cq"
       "snd (assess_database_readiness cfg (database_env w)) = Inr db"
       "snd (assess_api_readiness cfg (api_env w)) = Inr api"
       "snd (assess_system_resources cfg (system_env w)) = Inr sys"
    and f: "finalize ((initial_results (now w))
              \<lparr>categories := [(''code_quality'', cq), (''database'', db), (''api'', api),
                              (''system_resources'', sys)]\<rparr>) = Inr res"
    unfolding run_assessment_def io_bind_Inr by auto
  note F = finalize_Inr [OF f]
  show thesis
    by (rule that [OF a]) (use F in \<open>simp_all add: initial_results_def\<close>)
qed


lemmas result_ops = add_score_def set_detail_def add_issue_def initial_result_def

lemma healthy_code_quality_result:
  "assess_code_quality healthy_code_quality =
     ([Mvn_test, Mvn_jacoco_report, Mvn_spotbugs_check, Mvn_dependency_check],
      Inr \<lparr>score = 100, max_score = 100,
           details = [(''backend_tests'', ''PASSED''), (''test_coverage'', ''GENERATED''),
                      (''static_analysis'', ''PASSED''), (''security_scan'', ''PASSED'')],
           issues = []\<rparr>)"
  by (simp add: healthy_code_quality_def assess_code_quality_def io_bind_def
      backend_tests_probe_def test_coverage_probe_def static_analysis_probe_def
      security_scan_probe_def result_ops)

lemma str_nat_digit: "n < 10 \<Longrightarrow> str_nat n = [digit_char n]"
  by (simp add: str_nat.simps)

lemma str_nat_more: "\<not> n < 10 \<Longrightarrow> str_nat n = str_nat (n div 10) @ [digit_char (n mod 10)]"
  by (subst str_nat.simps) simp

lemmas str_nat_eval = str_nat_digit str_nat_more digit_char_def char_of_eq_iff

lemma healthy_database_result:
  "assess_database_readiness (default_config []) healthy_database =
     ([Db_connect, Db_cursor, Db_select_1, Db_schema_query, Db_count_inputs, Db_count_outputs,
       Db_join_query, Db_is_connected, Db_cursor_close, Db_connection_close],
      Inr \<lparr>score = 100, max_score = 100,
           details = [(''connectivity'', ''OK''), (''bigdecimal_columns'', ''1 found''),
                      (''data_integrity'', ''Inputs: 12, Outputs: 12''),
                      (''query_performance'', ''2.50ms'')],
           issues = []\<rparr>)"
  by (simp add: healthy_database_def assess_database_readiness_def db_try_body_def try_step_def
      db_connectivity_probe_def db_columns_probe_def db_data_integrity_probe_def
      db_query_performance_probe_def db_finally_def threshold_def default_config_def
      format_2f_def round_half_even_def str_int_def str_nat_eval result_ops)

lemma healthy_api_result:
  "assess_api_readiness (default_config []) healthy_api =
     ([Http_health, Http_financial_data, Http_dcf_calculate],
      Inr \<lparr>score = 100, max_score = 100,
           details = [(''health_check'', ''OK''), (''serialization'', ''OK''),
                      (''decimal_format'', ''OK''), (''dcf_performance'', ''120.00ms'')],
           issues = []\<rparr>)"
  by (simp add: healthy_api_def assess_api_readiness_def io_bind_def health_check_probe_def
      financial_data_probe_def dcf_calculation_probe_def serialization_check_def
      decimal_format_check_def threshold_def default_config_def lower_def lower_char_def
      format_2f_def round_half_even_def str_nat_eval result_ops)

lemma healthy_system_result:
  "assess_system_resources (default_config []) healthy_system =
     ([Pgrep, Ps_rss, Df, Uptime],
      Inr \<lparr>score = 100, max_score = 100,
           details = [(''memory_usage'', ''512MB''),
                      (''disk_space'', ''60G available (40% used)''),
                      (''system_load'', ''up 1 day'')],
           issues = []\<rparr>)"
  by (simp add: healthy_system_def assess_system_resources_def io_bind_def memory_probe_def
      memory_reading_def disk_space_probe_def disk_reading_def system_load_probe_def
      threshold_def default_config_def strip_def is_space_def split_sep_def split_ws_def
      index_def py_int_def parse_literal_def is_digit_def digit_value_def rstrip_char_def
      str_int_def str_nat_eval result_ops Let_def)

lemmas aggregate_defs = total_score_def max_total_score_def compute_readiness_score_def
  all_issues_of_def determine_status_def generate_recommendations_def tier_recommendations_def
  issue_recommendations_def any_issue_has_def test_block_def performance_block_def
  memory_block_def database_block_def

lemma healthy_run:
  "snd (run_assessment (default_config []) healthy_env) = Inr healthy_results"
  by (simp add: run_assessment_def healthy_env_def healthy_code_quality_result
      healthy_database_result healthy_api_result healthy_system_result io_bind_def
      finalize_def initial_results_def healthy_results_def healthy_categories_def aggregate_defs)


section \<open>The status policy\<close>

text \<open>
  C1. In every run that completes, the status is \<open>READY\<close> exactly when the readiness score
  is at least 90 and there is no critical issue; failing that, \<open>READY_WITH_WARNINGS\<close> exactly
  when the score is at least 70 and there are at most two critical issues; \<open>NOT_READY\<close> in
  every other case. A run with a critical issue is never \<open>READY\<close>.
\<close>

theorem status_policy:
  assumes "snd (run_assessment cfg w) = Inr res"
  shows "(overall_status res = READY \<longleftrightarrow>
            readiness_score res \<ge> 90 \<and> critical_issues res = []) \<and>
         (overall_status res = READY_WITH_WARNINGS \<longleftrightarrow>
            \<not> (readiness_score res \<ge> 90 \<and> critical_issues res = []) \<and>
            readiness_score res \<ge> 70 \<and> length (critical_issues res) \<le> 2) \<and>
         (overall_status res = NOT_READY \<longleftrightarrow>
            \<not> (readiness_score res \<ge> 90 \<and> critical_issues res = []) \<and>
            \<not> (readiness_score res \<ge> 70 \<and> length (critical_issues res) \<le> 2)) \<and>
         (critical_issues res \<noteq> [] \<longrightarrow> overall_status res \<noteq> READY)"
proof -
  from assms have "overall_status res = determine_status (readiness_score res) (critical_issues res)"
    by (rule run_assessment_Inr)
  then show ?thesis
    by (simp add: determine_status_def)
qed

theorem status_policy_witness:
  "snd (run_assessment (default_config []) healthy_env) = Inr healthy_results \<and>
   overall_status healthy_results = READY \<and> readiness_score healthy_results \<ge> 90 \<and>
   critical_issues healthy_results = []"
  using status_policy [OF healthy_run] healthy_run by (simp add: healthy_results_def)



section \<open>The readiness score\<close>



lemma is_critical_iff:
  "is_critical issue \<longleftrightarrow>
     (\<exists>kw \<in> {''critical'', ''failed'', ''error'', ''not found''}. sublist kw (lower issue))"
  by (simp add: is_critical_def critical_keywords_def str_in_sublist)

lemma lower_backend_tests_failing:
  "lower ''Backend tests failing'' = ''backend tests failing''"
  by (simp add: lower_def lower_char_def char_of_eq_iff)

lemma not_critical_backend_tests_failing: "\<not> is_critical ''Backend tests failing''"
  by (simp add: is_critical_def critical_keywords_def lower_backend_tests_failing)

lemma test_coverage_keeps_issues:
  "snd (test_coverage_probe env r) = Inr r' \<Longrightarrow> set (issues r) \<subseteq> set (issues r')"
  by (auto simp: test_coverage_probe_def result_ops split: proc_outcome.splits if_splits)

lemma static_analysis_keeps_issues:
  "snd (static_analysis_probe env r) = Inr r' \<Longrightarrow> set (issues r) \<subseteq> set (issues r')"
  by (auto simp: static_analysis_probe_def result_ops split: proc_outcome.splits if_splits)

lemma security_scan_keeps_issues:
  "snd (security_scan_probe env r) = Inr r' \<Longrightarrow> set (issues r) \<subseteq> set (issues r')"
  by (auto simp: security_scan_probe_def result_ops split: proc_outcome.splits if_splits)

lemma backend_tests_nonzero_issue:
  assumes "mvn_test env = Completed rc out" and "rc \<noteq> 0"
    and "snd (assess_code_quality env) = Inr r"
  shows "''Backend tests failing'' \<in> set (issues r)"
proof -
  from assms(3) obtain r1 r2 r3 where
    1: "snd (backend_tests_probe env initial_result) = Inr r1" and
    2: "snd (test_coverage_probe env r1) = Inr r2" and
    3: "snd (static_analysis_probe env r2) = Inr r3" and
    4: "snd (security_scan_probe env r3) = Inr r"
    unfolding assess_code_quality_def io_bind_Inr by auto
  from 1 assms(1,2) have "''Backend tests failing'' \<in> set (issues r1)"
    by (auto simp: backend_tests_probe_def result_ops)
  with test_coverage_keeps_issues [OF 2] static_analysis_keeps_issues [OF 3]
    security_scan_keeps_issues [OF 4]
  show ?thesis by blast
qed

lemma tests_failing_code_quality:
  "assess_code_quality (healthy_code_quality\<lparr>mvn_test := Completed 1 []\<rparr>) =
     ([Mvn_test, Mvn_jacoco_report, Mvn_spotbugs_check, Mvn_dependency_check],
      Inr \<lparr>score = 70, max_score = 100,
           details = [(''backend_tests'', ''FAILED''), (''test_coverage'', ''GENERATED''),
                      (''static_analysis'', ''PASSED''), (''security_scan'', ''PASSED'')],
           issues = [''Backend tests failing'']\<rparr>)"
  by (simp add: healthy_code_quality_def assess_code_quality_def io_bind_def
      backend_tests_probe_def test_coverage_probe_def static_analysis_probe_def
      security_scan_probe_def result_ops)

lemma tests_failing_run:
  "snd (run_assessment (default_config []) tests_failing_env) = Inr tests_failing_results"
  by (simp add: run_assessment_def tests_failing_env_def healthy_env_def
      tests_failing_code_quality healthy_database_result healthy_api_result
      healthy_system_result io_bind_def finalize_def initial_results_def
      tests_failing_results_def healthy_categories_def aggregate_defs
      not_critical_backend_tests_failing lower_backend_tests_failing)

section \<open>Issue classification\<close>

text \<open>
  C3. In every run that completes, each issue string of the four categories goes to exactly
  one of the two lists: to the critical issues when its lower-cased text contains
  \<open>critical\<close>, \<open>failed\<close>, \<open>error\<close> or \<open>not found\<close>, to the warnings otherwise. The
  string \<open>Backend tests failing\<close>, which the code-quality assessor records when the backend
  tests exit with a non-zero status, is a warning.
\<close>

theorem issue_classification:
  assumes "snd (run_assessment cfg w) = Inr res"
  shows "critical_issues res = filter is_critical (all_issues_of (categories res)) \<and>
         warnings res = filter (\<lambda>i. \<not> is_critical i) (all_issues_of (categories res)) \<and>
         (\<forall>issue \<in> set (all_issues_of (categories res)).
            (issue \<in> set (critical_issues res)) \<noteq> (issue \<in> set (warnings res))) \<and>
         (\<forall>issue. is_critical issue \<longleftrightarrow>
            (\<exists>kw \<in> {''critical'', ''failed'', ''error'', ''not found''}.
               sublist kw (lower issue))) \<and>
         \<not> is_critical ''Backend tests failing'' \<and>
         ((\<exists>rc out. mvn_test (code_quality_env w) = Completed rc out \<and> rc \<noteq> 0) \<longrightarrow>
            ''Backend tests failing'' \<in> set (warnings res) \<and>
            ''Backend tests failing'' \<notin> set (critical_issues res))"
proof -
  from assms obtain cq db api sys where
    cq: "snd (assess_code_quality (code_quality_env w)) = Inr cq" and
    cats: "categories res = [(''code_quality'', cq), (''database'', db), (''api'', api),
                            (''system_resources'', sys)]" and
    crit: "critical_issues res = filter is_critical (all_issues_of (categories res))" and
    warn: "warnings res = filter (\<lambda>i. \<not> is_critical i) (all_issues_of (categories res))"
    by (rule run_assessment_Inr)
  have excl: "\<forall>issue \<in> set (all_issues_of (categories res)).
            (issue \<in> set (critical_issues res)) \<noteq> (issue \<in> set (warnings res))"
    by (auto simp: crit warn)
  have backend: "''Backend tests failing'' \<in> set (warnings res) \<and>
            ''Backend tests failing'' \<notin> set (critical_issues res)"
    if "\<exists>rc out. mvn_test (code_quality_env w) = Completed rc out \<and> rc \<noteq> 0"
  proof -
    from that cq have "''Backend tests failing'' \<in> set (issues cq)"
      by (auto intro: backend_tests_nonzero_issue)
    then have "''Backend tests failing'' \<in> set (all_issues_of (categories res))"
      by (simp add: cats all_issues_of_def)
    then show ?thesis
      by (simp add: crit warn not_critical_backend_tests_failing)
  qed
  show ?thesis
    using crit warn excl backend is_critical_iff not_critical_backend_tests_failing
    by blast
qed

theorem issue_classification_witness:
  "snd (run_assessment (default_config []) tests_failing_env) = Inr tests_failing_results \<and>
   mvn_test (code_quality_env tests_failing_env) = Completed 1 [] \<and>
   all_issues_of (categories tests_failing_results) = [''Backend tests failing''] \<and>
   warnings tests_failing_results = [''Backend tests failing''] \<and>
   critical_issues tests_failing_results = []"
  using issue_classification [OF tests_failing_run] tests_failing_run
  by (simp add: tests_failing_results_def tests_failing_env_def healthy_env_def
      healthy_code_quality_def healthy_categories_def all_issues_of_def)

lemma slow_api_result:
  "assess_api_readiness (default_config []) (healthy_api\<lparr>dcf_elapsed_ms := 5000\<rparr>) =
     ([Http_health, Http_financial_data, Http_dcf_calculate],
      Inr \<lparr>score = 75, max_score = 100,
           details = [(''health_check'', ''OK''), (''serialization'', ''OK''),
                      (''decimal_format'', ''OK''), (''dcf_performance'', ''5000.00ms (SLOW)'')],
           issues = [''DCF calculation too slow: 5000.00ms'']\<rparr>)"
  by (simp add: healthy_api_def assess_api_readiness_def io_bind_def health_check_probe_def
      financial_data_probe_def dcf_calculation_probe_def serialization_check_def
      decimal_format_check_def threshold_def default_config_def lower_def lower_char_def
      format_2f_def round_half_even_def str_nat_eval result_ops)

lemma high_memory_system_result:
  "assess_system_resources (default_config [])
     (healthy_system\<lparr>ps_rss := (\<lambda>pid. Completed 0 ''4194304'')\<rparr>) =
     ([Pgrep, Ps_rss, Df, Uptime],
      Inr \<lparr>score = 60, max_score = 100,
           details = [(''memory_usage'', ''4096MB (HIGH)''),
                      (''disk_space'', ''60G available (40% used)''),
                      (''system_load'', ''up 1 day'')],
           issues = [''High memory usage: 4096MB'']\<rparr>)"
  by (simp add: healthy_system_def assess_system_resources_def io_bind_def memory_probe_def
      memory_reading_def disk_space_probe_def disk_reading_def system_load_probe_def
      threshold_def default_config_def strip_def is_space_def split_sep_def split_ws_def
      index_def py_int_def parse_literal_def is_digit_def digit_value_def rstrip_char_def
      str_int_def str_nat_eval result_ops Let_def)

lemma lower_slow_issue:
  "lower ''DCF calculation too slow: 5000.00ms'' = ''dcf calculation too slow: 5000.00ms''"
  by (simp add: lower_def lower_char_def char_of_eq_iff)

lemma lower_memory_issue:
  "lower ''High memory usage: 4096MB'' = ''high memory usage: 4096mb''"
  by (simp add: lower_def lower_char_def char_of_eq_iff)

lemma slow_and_memory_run:
  "snd (run_assessment (default_config []) slow_and_memory_env) = Inr slow_and_memory_results"
  by (simp add: run_assessment_def slow_and_memory_env_def healthy_env_def
      healthy_code_quality_result healthy_database_result slow_api_result
      high_memory_system_result io_bind_def finalize_def initial_results_def
      slow_and_memory_results_def healthy_categories_def aggregate_defs
      is_critical_def critical_keywords_def lower_slow_issue lower_memory_issue)

lemma issue_recommendations_blocks:
  "issue_recommendations all_issues recs0 =
     recs0 @
     (if \<exists>issue \<in> set all_issues. sublist ''test'' (lower issue) then test_block else []) @
     (if \<exists>issue \<in> set all_issues.
           sublist ''performance'' (lower issue) \<or> sublist ''slow'' (lower issue)
      then performance_block else []) @
     (if \<exists>issue \<in> set all_issues. sublist ''memory'' (lower issue) then memory_block else []) @
     (if \<exists>issue \<in> set all_issues. sublist ''database'' (lower issue) then database_block else [])"
  by (simp add: issue_recommendations_def any_issue_has_def list_ex_iff str_in_sublist Let_def)

lemma generate_recommendations_Inr:
  "generate_recommendations cats = Inr recs \<Longrightarrow>
     max_total_score cats \<noteq> 0 \<and>
     recs = issue_recommendations (all_issues_of cats)
              (tier_recommendations (of_int (total_score cats) / of_int (max_total_score cats)))"
  by (auto simp: generate_recommendations_def split: if_splits)

section \<open>Recommendation triggers\<close>

text \<open>
  C8. In every run that completes, the recommendations are the tier's lines followed by one
  block per keyword trigger, in the order \<open>test\<close>, \<open>performance\<close> or \<open>slow\<close>, \<open>memory\<close>,
  \<open>database\<close>. A block (one or two fixed lines) is present exactly when its keyword occurs in
  the lower-cased text of some issue of any category, whatever the other triggers do. When one
  issue has \<open>slow\<close> and one has \<open>memory\<close>, both blocks are in the list.
\<close>

theorem recommendation_triggers:
  assumes "snd (run_assessment cfg w) = Inr res"
  shows "recommendations res =
           tier_recommendations (of_int (total_score (categories res)) /
                                 of_int (max_total_score (categories res))) @
           (if \<exists>issue \<in> set (all_issues_of (categories res)). sublist ''test'' (lower issue)
            then test_block else []) @
           (if \<exists>issue \<in> set (all_issues_of (categories res)).
                 sublist ''performance'' (lower issue) \<or> sublist ''slow'' (lower issue)
            then performance_block else []) @
           (if \<exists>issue \<in> set (all_issues_of (categories res)). sublist ''memory'' (lower issue)
            then memory_block else []) @
           (if \<exists>issue \<in> set (all_issues_of (categories res)). sublist ''database'' (lower issue)
            then database_block else []) \<and>
         ((\<exists>issue \<in> set (all_issues_of (categories res)). sublist ''slow'' (lower issue)) \<and>
          (\<exists>issue \<in> set (all_issues_of (categories res)). sublist ''memory'' (lower issue)) \<longrightarrow>
            set performance_block \<union> set memory_block \<subseteq> set (recommendations res)) \<and>
         length test_block = 1 \<and> length performance_block = 2 \<and>
         length memory_block = 2 \<and> length database_block = 2"
proof -
  define iss where "iss = all_issues_of (categories res)"
  define tier where "tier = tier_recommendations (of_int (total_score (categories res)) /
                                 of_int (max_total_score (categories res)))"
  from assms have "generate_recommendations (categories res) = Inr (recommendations res)"
    by (rule run_assessment_Inr)
  from generate_recommendations_Inr [OF this]
  have blocks: "recommendations res =
           tier @
           (if \<exists>issue \<in> set iss. sublist ''test'' (lower issue) then test_block else []) @
           (if \<exists>issue \<in> set iss.
                 sublist ''performance'' (lower issue) \<or> sublist ''slow'' (lower issue)
            then performance_block else []) @
           (if \<exists>issue \<in> set iss. sublist ''memory'' (lower issue) then memory_block else []) @
           (if \<exists>issue \<in> set iss. sublist ''database'' (lower issue) then database_block else [])"
    unfolding issue_recommendations_blocks iss_def tier_def by (rule conjunct2)
  have both: "set performance_block \<union> set memory_block \<subseteq> set (recommendations res)"
    if "(\<exists>issue \<in> set iss. sublist ''slow'' (lower issue)) \<and>
        (\<exists>issue \<in> set iss. sublist ''memory'' (lower issue))"
  proof -
    from that have perf: "\<exists>issue \<in> set iss.
        sublist ''performance'' (lower issue) \<or> sublist ''slow'' (lower issue)"
      and mem: "\<exists>issue \<in> set iss. sublist ''memory'' (lower issue)"
      by blast+
    show ?thesis
      unfolding blocks if_P [OF perf] if_P [OF mem] by auto
  qed
  have lens: "length test_block = 1 \<and> length performance_block = 2 \<and>
         length memory_block = 2 \<and> length database_block = 2"
    by (simp add: test_block_def performance_block_def memory_block_def database_block_def)
  note first = blocks [unfolded iss_def tier_def]
  have second: "(\<exists>issue \<in> set (all_issues_of (categories res)). sublist ''slow'' (lower issue)) \<and>
          (\<exists>issue \<in> set (all_issues_of (categories res)). sublist ''memory'' (lower issue)) \<longrightarrow>
            set performance_block \<union> set memory_block \<subseteq> set (recommendations res)"
    by (rule impI) (rule both [unfolded iss_def])
  show ?thesis
    by (rule conjI [OF first conjI [OF second lens]])
qed

theorem recommendation_triggers_witness:
  "snd (run_assessment (default_config []) slow_and_memory_env) = Inr slow_and_memory_results \<and>
   all_issues_of (categories slow_and_memory_results) =
     [''DCF calculation too slow: 5000.00ms'', ''High memory usage: 4096MB''] \<and>
   sublist ''slow'' (lower ''DCF calculation too slow: 5000.00ms'') \<and>
   sublist ''memory'' (lower ''High memory usage: 4096MB'') \<and>
   set performance_block \<union> set memory_block \<subseteq> set (recommendations slow_and_memory_results)"
proof -
  have issues: "all_issues_of (categories slow_and_memory_results) =
      [''DCF calculation too slow: 5000.00ms'', ''High memory usage: 4096MB'']"
    by (simp add: slow_and_memory_results_def healthy_categories_def all_issues_of_def)
  have slow: "sublist ''slow'' (lower ''DCF calculation too slow: 5000.00ms'')"
    unfolding str_in_sublist [symmetric] by (simp add: lower_slow_issue)
  have mem: "sublist ''memory'' (lower ''High memory usage: 4096MB'')"
    unfolding str_in_sublist [symmetric] by (simp add: lower_memory_issue)
  have trig: "(\<exists>issue \<in> set (all_issues_of (categories slow_and_memory_results)).
                 sublist ''slow'' (lower issue)) \<and>
              (\<exists>issue \<in> set (all_issues_of (categories slow_and_memory_results)).
                 sublist ''memory'' (lower issue))"
    unfolding issues using slow mem by simp
  have "set performance_block \<union> set memory_block \<subseteq> set (recommendations slow_and_memory_results)"
    by (rule mp [OF conjunct1 [OF conjunct2 [OF recommendation_triggers [OF slow_and_memory_run]]] trig])
  with slow_and_memory_run issues slow mem show ?thesis by (intro conjI)
qed

lemmas probe_splits = proc_outcome.splits http_outcome.splits sum.splits option.splits
  if_splits prod.splits

lemma backend_tests_score:
  "snd (backend_tests_probe env r) = Inr r' \<Longrightarrow>
     score r \<le> score r' \<and> score r' \<le> score r + 30 \<and> max_score r' = max_score r"
  by (auto simp: backend_tests_probe_def result_ops split: probe_splits)

lemma test_coverage_score:
  "snd (test_coverage_probe env r) = Inr r' \<Longrightarrow>
     score r \<le> score r' \<and> score r' \<le> score r + 20 \<and> max_score r' = max_score r"
  by (auto simp: test_coverage_probe_def result_ops split: probe_splits)

lemma static_analysis_score:
  "snd (static_analysis_probe env r) = Inr r' \<Longrightarrow>
     score r \<le> score r' \<and> score r' \<le> score r + 25 \<and> max_score r' = max_score r"
  by (auto simp: static_analysis_probe_def result_ops split: probe_splits)

lemma security_scan_score:
  "snd (security_scan_probe env r) = Inr r' \<Longrightarrow>
     score r \<le> score r' \<and> score r' \<le> score r + 25 \<and> max_score r' = max_score r"
  by (auto simp: security_scan_probe_def result_ops split: probe_splits)

lemma health_check_score:
  "snd (health_check_probe env r) = Inr r' \<Longrightarrow>
     score r \<le> score r' \<and> score r' \<le> score r + 25 \<and> max_score r' = max_score r"
  by (auto simp: health_check_probe_def result_ops split: probe_splits)

lemma financial_data_score:
  "snd (financial_data_probe env r) = Inr r' \<Longrightarrow>
     score r \<le> score r' \<and> score r' \<le> score r + 50 \<and> max_score r' = max_score r"
  by (auto simp: financial_data_probe_def serialization_check_def decimal_format_check_def
      result_ops split: probe_splits)

lemma dcf_calculation_score:
  "snd (dcf_calculation_probe cfg env r) = Inr r' \<Longrightarrow>
     score r \<le> score r' \<and> score r' \<le> score r + 25 \<and> max_score r' = max_score r"
  by (auto simp: dcf_calculation_probe_def Let_def result_ops split: probe_splits)

lemma memory_reading_score:
  "score r \<le> score (memory_reading cfg out r) \<and>
   score (memory_reading cfg out r) \<le> score r + 40 \<and>
   max_score (memory_reading cfg out r) = max_score r"
  by (auto simp: memory_reading_def resource_check_except_def Let_def result_ops
      split: probe_splits)

lemma memory_score:
  "snd (memory_probe cfg env r) = Inr r' \<Longrightarrow>
     score r \<le> score r' \<and> score r' \<le> score r + 40 \<and> max_score r' = max_score r"
  using memory_reading_score [of r cfg]
  by (auto simp: memory_probe_def resource_check_except_def result_ops split: probe_splits)

lemma disk_reading_score:
  "score r \<le> score (disk_reading line r) \<and>
   score (disk_reading line r) \<le> score r + 30 \<and>
   max_score (disk_reading line r) = max_score r"
  by (auto simp: disk_reading_def disk_check_except_def Let_def result_ops split: probe_splits)

lemma disk_space_score:
  "snd (disk_space_probe env r) = Inr r' \<Longrightarrow>
     score r \<le> score r' \<and> score r' \<le> score r + 30 \<and> max_score r' = max_score r"
  using disk_reading_score [of r]
  by (auto simp: disk_space_probe_def disk_check_except_def Let_def result_ops
      split: probe_splits)

lemma system_load_score:
  "snd (system_load_probe env r) = Inr r' \<Longrightarrow>
     score r \<le> score r' \<and> score r' \<le> score r + 30 \<and> max_score r' = max_score r"
  by (auto simp: system_load_probe_def result_ops split: probe_splits)

lemma db_connectivity_score:
  "db_connectivity_probe env r = (tr, r', x) \<Longrightarrow>
     score r \<le> score r' \<and> score r' \<le> score r + 20 \<and> max_score r' = max_score r"
  by (auto simp: db_connectivity_probe_def result_ops split: probe_splits)

lemma db_columns_score:
  "db_columns_probe env r = (tr, r', x) \<Longrightarrow>
     score r \<le> score r' \<and> score r' \<le> score r + 30 \<and> max_score r' = max_score r"
  by (auto simp: db_columns_probe_def Let_def result_ops split: probe_splits)

lemma db_data_integrity_score:
  "db_data_integrity_probe env r = (tr, r', x) \<Longrightarrow>
     score r \<le> score r' \<and> score r' \<le> score r + 25 \<and> max_score r' = max_score r"
  by (auto simp: db_data_integrity_probe_def result_ops split: probe_splits)

lemma db_query_performance_score:
  "db_query_performance_probe cfg env r = (tr, r', x) \<Longrightarrow>
     score r \<le> score r' \<and> score r' \<le> score r + 25 \<and> max_score r' = max_score r"
  by (auto simp: db_query_performance_probe_def result_ops split: probe_splits)

lemma db_except_score:
  "score (db_except e r) = score r \<and> max_score (db_except e r) = max_score r"
  by (simp add: db_except_def result_ops)

lemma try_step_score:
  assumes step: "\<And>r tr r' x. f r = (tr, r', x) \<Longrightarrow>
             score r \<le> score r' \<and> score r' \<le> score r + n \<and> max_score r' = max_score r"
    and "try_step (tr0, r0, x0) f = (tr, r', x)" and "0 \<le> n"
  shows "score r0 \<le> score r' \<and> score r' \<le> score r0 + n \<and> max_score r' = max_score r0"
proof (cases x0)
  case None
  with assms(2) obtain tr1 where "f r0 = (tr1, r', x)"
    by (auto simp: try_step_def split: prod.splits)
  then show ?thesis by (rule step)
next
  case (Some e)
  with assms(2) have "r' = r0" by (simp add: try_step_def)
  with \<open>0 \<le> n\<close> show ?thesis by simp
qed

lemma db_try_body_score:
  assumes "db_try_body cfg env r = (tr, r', x)"
  shows "score r \<le> score r' \<and> score r' \<le> score r + 100 \<and> max_score r' = max_score r"
proof -
  obtain t1 r1 x1 where 1: "db_connectivity_probe env r = (t1, r1, x1)"
    by (cases "db_connectivity_probe env r") auto
  obtain t2 r2 x2 where 2: "try_step (t1, r1, x1) (db_columns_probe env) = (t2, r2, x2)"
    by (cases "try_step (t1, r1, x1) (db_columns_probe env)") auto
  obtain t3 r3 x3 where 3: "try_step (t2, r2, x2) (db_data_integrity_probe env) = (t3, r3, x3)"
    by (cases "try_step (t2, r2, x2) (db_data_integrity_probe env)") auto
  from assms have 4: "try_step (t3, r3, x3) (db_query_performance_probe cfg env) = (tr, r', x)"
    by (simp add: db_try_body_def 1 2 3)
  note b1 = db_connectivity_score [OF 1]
  have b2: "score r1 \<le> score r2 \<and> score r2 \<le> score r1 + 30 \<and> max_score r2 = max_score r1"
    by (rule try_step_score [OF _ 2]) (erule db_columns_score, simp)
  have b3: "score r2 \<le> score r3 \<and> score r3 \<le> score r2 + 25 \<and> max_score r3 = max_score r2"
    by (rule try_step_score [OF _ 3]) (erule db_data_integrity_score, simp)
  have b4: "score r3 \<le> score r' \<and> score r' \<le> score r3 + 25 \<and> max_score r' = max_score r3"
    by (rule try_step_score [OF _ 4]) (erule db_query_performance_score, simp)
  from b1 b2 b3 b4 show ?thesis by linarith
qed

lemma assess_code_quality_bounds:
  assumes "snd (assess_code_quality env) = Inr r"
  shows "0 \<le> score r \<and> score r \<le> max_score r \<and> max_score r = 100"
proof -
  from assms obtain r1 r2 r3 where
    1: "snd (backend_tests_probe env initial_result) = Inr r1" and
    2: "snd (test_coverage_probe env r1) = Inr r2" and
    3: "snd (static_analysis_probe env r2) = Inr r3" and
    4: "snd (security_scan_probe env r3) = Inr r"
    unfolding assess_code_quality_def io_bind_Inr by auto
  from backend_tests_score [OF 1] test_coverage_score [OF 2] static_analysis_score [OF 3]
    security_scan_score [OF 4]
  show ?thesis by (simp add: initial_result_def)
qed

lemma assess_database_readiness_bounds:
  assumes "snd (assess_database_readiness cfg env) = Inr r"
  shows "0 \<le> score r \<and> score r \<le> max_score r \<and> max_score r = 100"
proof -
  obtain tr r1 x where b: "db_try_body cfg env initial_result = (tr, r1, x)"
    by (cases "db_try_body cfg env initial_result") auto
  from assms have "r = (case x of None \<Rightarrow> r1 | Some e \<Rightarrow> db_except e r1)"
    by (auto simp: assess_database_readiness_def b Let_def split: probe_splits)
  then have "score r = score r1 \<and> max_score r = max_score r1"
    by (cases x) (simp_all add: db_except_score)
  with db_try_body_score [OF b] show ?thesis by (simp add: initial_result_def)
qed

lemma assess_api_readiness_bounds:
  assumes "snd (assess_api_readiness cfg env) = Inr r"
  shows "0 \<le> score r \<and> score r \<le> max_score r \<and> max_score r = 100"
proof -
  from assms obtain r1 r2 where
    1: "snd (health_check_probe env initial_result) = Inr r1" and
    2: "snd (financial_data_probe env r1) = Inr r2" and
    3: "snd (dcf_calculation_probe cfg env r2) = Inr r"
    unfolding assess_api_readiness_def io_bind_Inr by auto
  from health_check_score [OF 1] financial_data_score [OF 2] dcf_calculation_score [OF 3]
  show ?thesis by (simp add: initial_result_def)
qed

lemma assess_system_resources_bounds:
  assumes "snd (assess_system_resources cfg env) = Inr r"
  shows "0 \<le> score r \<and> score r \<le> max_score r \<and> max_score r = 100"
proof -
  from assms obtain r1 r2 where
    1: "snd (memory_probe cfg env initial_result) = Inr r1" and
    2: "snd (disk_space_probe env r1) = Inr r2" and
    3: "snd (system_load_probe env r2) = Inr r"
    unfolding assess_system_resources_def io_bind_Inr by auto
  from memory_score [OF 1] disk_space_score [OF 2] system_load_score [OF 3]
  show ?thesis by (simp add: initial_result_def)
qed

section \<open>Category scores\<close>

text \<open>
  C9. The result any of the four assessors returns has \<open>max_score = 100\<close> and
  \<open>0 \<le> score \<le> max_score\<close>, whatever the probes meet, so also when every probe succeeds.
  While an assessor runs its score never decreases: no probe, and no exception handler,
  returns a dictionary with a lower score than the one it was given.
\<close>

theorem category_score_bounds:
  "(snd (assess_code_quality cq) = Inr r \<or>
    snd (assess_database_readiness cfg db) = Inr r \<or>
    snd (assess_api_readiness cfg api) = Inr r \<or>
    snd (assess_system_resources cfg sys) = Inr r \<longrightarrow>
      0 \<le> score r \<and> score r \<le> max_score r \<and> max_score r = 100) \<and>
   (snd (backend_tests_probe cq r0) = Inr r1 \<or> snd (test_coverage_probe cq r0) = Inr r1 \<or>
    snd (static_analysis_probe cq r0) = Inr r1 \<or> snd (security_scan_probe cq r0) = Inr r1 \<or>
    snd (health_check_probe api r0) = Inr r1 \<or> snd (financial_data_probe api r0) = Inr r1 \<or>
    snd (dcf_calculation_probe cfg api r0) = Inr r1 \<or>
    snd (memory_probe cfg sys r0) = Inr r1 \<or> snd (disk_space_probe sys r0) = Inr r1 \<or>
    snd (system_load_probe sys r0) = Inr r1 \<or>
    db_connectivity_probe db r0 = (tr, r1, x) \<or> db_columns_probe db r0 = (tr, r1, x) \<or>
    db_data_integrity_probe db r0 = (tr, r1, x) \<or>
    db_query_performance_probe cfg db r0 = (tr, r1, x) \<or> r1 = db_except e r0 \<longrightarrow>
      score r0 \<le> score r1 \<and> max_score r1 = max_score r0)"
proof (intro conjI impI)
  assume "snd (assess_code_quality cq) = Inr r \<or>
    snd (assess_database_readiness cfg db) = Inr r \<or>
    snd (assess_api_readiness cfg api) = Inr r \<or>
    snd (assess_system_resources cfg sys) = Inr r"
  then have "0 \<le> score r \<and> score r \<le> max_score r \<and> max_score r = 100"
  proof (elim disjE)
    assume "snd (assess_code_quality cq) = Inr r"
    then show ?thesis by (rule assess_code_quality_bounds)
  next
    assume "snd (assess_database_readiness cfg db) = Inr r"
    then show ?thesis by (rule assess_database_readiness_bounds)
  next
    assume "snd (assess_api_readiness cfg api) = Inr r"
    then show ?thesis by (rule assess_api_readiness_bounds)
  next
    assume "snd (assess_system_resources cfg sys) = Inr r"
    then show ?thesis by (rule assess_system_resources_bounds)
  qed
  then show "0 \<le> score r" "score r \<le> max_score r" "max_score r = 100"
    by simp_all
next
  assume "snd (backend_tests_probe cq r0) = Inr r1 \<or> snd (test_coverage_probe cq r0) = Inr r1 \<or>
    snd (static_analysis_probe cq r0) = Inr r1 \<or> snd (security_scan_probe cq r0) = Inr r1 \<or>
    snd (health_check_probe api r0) = Inr r1 \<or> snd (financial_data_probe api r0) = Inr r1 \<or>
    snd (dcf_calculation_probe cfg api r0) = Inr r1 \<or>
    snd (memory_probe cfg sys r0) = Inr r1 \<or> snd (disk_space_probe sys r0) = Inr r1 \<or>
    snd (system_load_probe sys r0) = Inr r1 \<or>
    db_connectivity_probe db r0 = (tr, r1, x) \<or> db_columns_probe db r0 = (tr, r1, x) \<or>
    db_data_integrity_probe db r0 = (tr, r1, x) \<or>
    db_query_performance_probe cfg db r0 = (tr, r1, x) \<or> r1 = db_except e r0"
  then have "score r0 \<le> score r1 \<and> max_score r1 = max_score r0"
    apply (elim disjE)
                  apply (drule backend_tests_score, simp)
                 apply (drule test_coverage_score, simp)
                apply (drule static_analysis_score, simp)
               apply (drule security_scan_score, simp)
              apply (drule health_check_score, simp)
             apply (drule financial_data_score, simp)
            apply (drule dcf_calculation_score, simp)
           apply (drule memory_score, simp)
          apply (drule disk_space_score, simp)
         apply (drule system_load_score, simp)
        apply (drule db_connectivity_score, simp)
       apply (drule db_columns_score, simp)
      apply (drule db_data_integrity_score, simp)
     apply (drule db_query_performance_score, simp)
    apply (simp add: db_except_score)
    done
  then show "score r0 \<le> score r1" "max_score r1 = max_score r0"
    by simp_all
qed

theorem category_score_bounds_witness:
  "snd (assess_code_quality healthy_code_quality) = Inr (snd (healthy_categories ! 0)) \<and>
   score (snd (healthy_categories ! 0)) = 100 \<and>
   score (snd (healthy_categories ! 0)) \<le> max_score (snd (healthy_categories ! 0)) \<and>
   snd (backend_tests_probe healthy_code_quality initial_result) =
     Inr (add_score 30 (set_detail ''backend_tests'' ''PASSED'' initial_result)) \<and>
   score initial_result \<le>
     score (add_score 30 (set_detail ''backend_tests'' ''PASSED'' initial_result))"
proof -
  have a: "snd (assess_code_quality healthy_code_quality) = Inr (snd (healthy_categories ! 0))"
    by (simp add: healthy_code_quality_result healthy_categories_def)
  have b: "snd (backend_tests_probe healthy_code_quality initial_result) =
     Inr (add_score 30 (set_detail ''backend_tests'' ''PASSED'' initial_result))"
    by (simp add: backend_tests_probe_def healthy_code_quality_def)
  from a b category_score_bounds [where cq = healthy_code_quality
      and r = "snd (healthy_categories ! 0)" and ?r0.0 = initial_result
      and ?r1.0 = "add_score 30 (set_detail ''backend_tests'' ''PASSED'' initial_result)"]
  show ?thesis by (simp add: healthy_categories_def)
qed

lemma lower_append: "lower (a @ b) = lower a @ lower b"
  by (simp add: lower_def)

lemma str_in_append_left: "str_in sub a \<Longrightarrow> str_in sub (a @ b)"
  unfolding str_in_sublist by (metis sublist_append)

lemma str_in_append_right: "str_in sub b \<Longrightarrow> str_in sub (a @ b)"
  unfolding str_in_sublist by (metis sublist_append)

lemma lower_database_connection_error:
  "lower ''Database connection error: '' = ''database connection error: ''"
  by (simp add: lower_def lower_char_def char_of_eq_iff)

lemma database_connection_error_critical:
  "is_critical (''Database connection error: '' @ msg)"
proof -
  have "str_in ''error'' (lower ''Database connection error: '')"
    by (simp add: lower_database_connection_error)
  then have "str_in ''error'' (lower (''Database connection error: '' @ msg))"
    unfolding lower_append by (rule str_in_append_left)
  then show ?thesis
    by (simp add: is_critical_def critical_keywords_def)
qed

lemma db_connect_raises:
  assumes "db_connect env = Some e"
  shows "assess_database_readiness cfg env = ([Db_connect], Inr (db_except e initial_result))"
  using assms
  by (simp add: assess_database_readiness_def db_try_body_def db_connectivity_probe_def
      try_step_def db_finally_def)

lemma backend_tests_full:
  "snd (backend_tests_probe env r) = Inr r' \<Longrightarrow> score r' = score r + 30 \<Longrightarrow> issues r' = issues r"
  by (auto simp: backend_tests_probe_def result_ops split: probe_splits)

lemma test_coverage_full:
  "snd (test_coverage_probe env r) = Inr r' \<Longrightarrow> score r' = score r + 20 \<Longrightarrow> issues r' = issues r"
  by (auto simp: test_coverage_probe_def result_ops split: probe_splits)

lemma static_analysis_full:
  "snd (static_analysis_probe env r) = Inr r' \<Longrightarrow> score r' = score r + 25 \<Longrightarrow> issues r' = issues r"
  by (auto simp: static_analysis_probe_def result_ops split: probe_splits)

lemma security_scan_full:
  "snd (security_scan_probe env r) = Inr r' \<Longrightarrow> score r' = score r + 25 \<Longrightarrow> issues r' = issues r"
  by (auto simp: security_scan_probe_def result_ops split: probe_splits)

lemma health_check_full:
  "snd (health_check_probe env r) = Inr r' \<Longrightarrow> score r' = score r + 25 \<Longrightarrow> issues r' = issues r"
  by (auto simp: health_check_probe_def result_ops split: probe_splits)

lemma financial_data_full:
  "snd (financial_data_probe env r) = Inr r' \<Longrightarrow> score r' = score r + 50 \<Longrightarrow> issues r' = issues r"
  by (auto simp: financial_data_probe_def serialization_check_def decimal_format_check_def
      result_ops split: probe_splits)

lemma dcf_calculation_full:
  "snd (dcf_calculation_probe cfg env r) = Inr r' \<Longrightarrow> score r' = score r + 25 \<Longrightarrow>
     issues r' = issues r"
  by (auto simp: dcf_calculation_probe_def Let_def result_ops split: probe_splits)

lemma memory_reading_full:
  "score (memory_reading cfg out r) = score r + 40 \<Longrightarrow> issues (memory_reading cfg out r) = issues r"
  by (auto simp: memory_reading_def resource_check_except_def Let_def result_ops
      split: probe_splits)

lemma memory_full:
  "snd (memory_probe cfg env r) = Inr r' \<Longrightarrow> score r' = score r + 40 \<Longrightarrow> issues r' = issues r"
  using memory_reading_full [of cfg _ r]
  by (auto simp: memory_probe_def resource_check_except_def result_ops split: probe_splits)

lemma disk_reading_full:
  "score (disk_reading line r) = score r + 30 \<Longrightarrow> issues (disk_reading line r) = issues r"
  by (auto simp: disk_reading_def disk_check_except_def Let_def result_ops split: probe_splits)

lemma disk_space_full:
  "snd (disk_space_probe env r) = Inr r' \<Longrightarrow> score r' = score r + 30 \<Longrightarrow> issues r' = issues r"
  using disk_reading_full [of _ r]
  by (auto simp: disk_space_probe_def disk_check_except_def Let_def result_ops
      split: probe_splits)

lemma system_load_full:
  "snd (system_load_probe env r) = Inr r' \<Longrightarrow> score r' = score r + 30 \<Longrightarrow> issues r' = issues r"
  by (auto simp: system_load_probe_def result_ops split: probe_splits)

lemma code_quality_perfect:
  assumes "snd (assess_code_quality env) = Inr r" and "score r = 100"
  shows "issues r = []"
proof -
  from assms(1) obtain r1 r2 r3 where
    1: "snd (backend_tests_probe env initial_result) = Inr r1" and
    2: "snd (test_coverage_probe env r1) = Inr r2" and
    3: "snd (static_analysis_probe env r2) = Inr r3" and
    4: "snd (security_scan_probe env r3) = Inr r"
    unfolding assess_code_quality_def io_bind_Inr by auto
  from backend_tests_score [OF 1] test_coverage_score [OF 2] static_analysis_score [OF 3]
    security_scan_score [OF 4] assms(2)
  have s: "score r1 = score initial_result + 30" "score r2 = score r1 + 20"
    "score r3 = score r2 + 25" "score r = score r3 + 25"
    by (simp_all add: initial_result_def)
  from backend_tests_full [OF 1 s(1)] test_coverage_full [OF 2 s(2)]
    static_analysis_full [OF 3 s(3)] security_scan_full [OF 4 s(4)]
  show ?thesis by (simp add: initial_result_def)
qed

lemma api_perfect:
  assumes "snd (assess_api_readiness cfg env) = Inr r" and "score r = 100"
  shows "issues r = []"
proof -
  from assms(1) obtain r1 r2 where
    1: "snd (health_check_probe env initial_result) = Inr r1" and
    2: "snd (financial_data_probe env r1) = Inr r2" and
    3: "snd (dcf_calculation_probe cfg env r2) = Inr r"
    unfolding assess_api_readiness_def io_bind_Inr by auto
  from health_check_score [OF 1] financial_data_score [OF 2] dcf_calculation_score [OF 3]
    assms(2)
  have s: "score r1 = score initial_result + 25" "score r2 = score r1 + 50"
    "score r = score r2 + 25"
    by (simp_all add: initial_result_def)
  from health_check_full [OF 1 s(1)] financial_data_full [OF 2 s(2)]
    dcf_calculation_full [OF 3 s(3)]
  show ?thesis by (simp add: initial_result_def)
qed

lemma system_resources_perfect:
  assumes "snd (assess_system_resources cfg env) = Inr r" and "score r = 100"
  shows "issues r = []"
proof -
  from assms(1) obtain r1 r2 where
    1: "snd (memory_probe cfg env initial_result) = Inr r1" and
    2: "snd (disk_space_probe env r1) = Inr r2" and
    3: "snd (system_load_probe env r2) = Inr r"
    unfolding assess_system_resources_def io_bind_Inr by auto
  from memory_score [OF 1] disk_space_score [OF 2] system_load_score [OF 3] assms(2)
  have s: "score r1 = score initial_result + 40" "score r2 = score r1 + 30"
    "score r = score r2 + 30"
    by (simp_all add: initial_result_def)
  from memory_full [OF 1 s(1)] disk_space_full [OF 2 s(2)] system_load_full [OF 3 s(3)]
  show ?thesis by (simp add: initial_result_def)
qed

lemma lower_db_down_issue:
  "lower ''Database connection error: 2003: connection refused'' =
     ''database connection error: 2003: connection refused''"
  by (simp add: lower_def lower_char_def char_of_eq_iff)

lemma db_down_run:
  "snd (run_assessment (default_config []) db_down_env) = Inr db_down_results"
  by (simp add: run_assessment_def db_down_env_def healthy_env_def healthy_database_def
      healthy_code_quality_result db_connect_raises db_except_def result_ops
      healthy_api_result healthy_system_result io_bind_def finalize_def initial_results_def
      db_down_results_def healthy_categories_def aggregate_defs
      is_critical_def critical_keywords_def lower_db_down_issue)

section \<open>A database outage\<close>

text \<open>
  C10. When \<^verbatim>\<open>mysql.connector.connect\<close> raises a database error, the Database category
  comes back with score 0, the single detail \<open>database_error\<close> and the single issue
  \<open>Database connection error: \<close> followed by the error's text; that issue contains \<open>error\<close>
  and is critical. If the other three categories score their full 100, the run has
  readiness score 75, that one critical issue, no warning, and status
  \<open>READY_WITH_WARNINGS\<close>.
\<close>

theorem database_outage:
  assumes "db_connect (database_env w) = Some (Exc MySQLError msg)"
  shows "snd (assess_database_readiness cfg (database_env w)) =
           Inr \<lparr>score = 0, max_score = 100, details = [(''database_error'', msg)],
                issues = [''Database connection error: '' @ msg]\<rparr> \<and>
         sublist ''error'' (''Database connection error: '' @ msg) \<and>
         is_critical (''Database connection error: '' @ msg) \<and>
         (snd (run_assessment cfg w) = Inr res \<and>
          snd (assess_code_quality (code_quality_env w)) = Inr cq \<and> score cq = 100 \<and>
          snd (assess_api_readiness cfg (api_env w)) = Inr api \<and> score api = 100 \<and>
          snd (assess_system_resources cfg (system_env w)) = Inr sys \<and> score sys = 100 \<longrightarrow>
            readiness_score res = 75 \<and>
            critical_issues res = [''Database connection error: '' @ msg] \<and>
            warnings res = [] \<and>
            overall_status res = READY_WITH_WARNINGS)"
proof -
  let ?issue = "''Database connection error: '' @ msg"
  let ?db = "\<lparr>score = 0, max_score = 100, details = [(''database_error'', msg)],
              issues = [?issue]\<rparr>"
  have db: "snd (assess_database_readiness cfg (database_env w)) = Inr ?db"
    by (simp add: db_connect_raises [OF assms] db_except_def result_ops)
  have "str_in ''error'' ''Database connection error: ''" by simp
  then have sub: "sublist ''error'' ?issue"
    unfolding str_in_sublist by (metis sublist_append)
  note crit = database_connection_error_critical [of msg]
  have run: "readiness_score res = 75 \<and> critical_issues res = [?issue] \<and>
      warnings res = [] \<and> overall_status res = READY_WITH_WARNINGS"
    if res: "snd (run_assessment cfg w) = Inr res"
      and cq: "snd (assess_code_quality (code_quality_env w)) = Inr cq" "score cq = 100"
      and api: "snd (assess_api_readiness cfg (api_env w)) = Inr api" "score api = 100"
      and sys: "snd (assess_system_resources cfg (system_env w)) = Inr sys" "score sys = 100"
  proof -
    from res obtain cq' db' api' sys' where
      r: "snd (assess_code_quality (code_quality_env w)) = Inr cq'"
         "snd (assess_database_readiness cfg (database_env w)) = Inr db'"
         "snd (assess_api_readiness cfg (api_env w)) = Inr api'"
         "snd (assess_system_resources cfg (system_env w)) = Inr sys'" and
      cats: "categories res = [(''code_quality'', cq'), (''database'', db'), (''api'', api'),
                              (''system_resources'', sys')]" and
      rs: "readiness_score res = compute_readiness_score (categories res)" and
      ci: "critical_issues res = filter is_critical (all_issues_of (categories res))" and
      wa: "warnings res = filter (\<lambda>i. \<not> is_critical i) (all_issues_of (categories res))" and
      st: "overall_status res = determine_status (readiness_score res) (critical_issues res)"
      by (rule run_assessment_Inr)
    from r cq api sys db have eq: "cq' = cq" "db' = ?db" "api' = api" "sys' = sys"
      by simp_all
    have m: "max_score cq = 100" "max_score api = 100" "max_score sys = 100"
      using assess_code_quality_bounds [OF cq(1)] assess_api_readiness_bounds [OF api(1)]
        assess_system_resources_bounds [OF sys(1)] by simp_all
    have i: "issues cq = []" "issues api = []" "issues sys = []"
      using code_quality_perfect [OF cq] api_perfect [OF api] system_resources_perfect [OF sys]
      by simp_all
    have all: "all_issues_of (categories res) = [?issue]"
      by (simp add: cats eq all_issues_of_def i)
    have score: "readiness_score res = 75"
      by (simp add: rs cats eq compute_readiness_score_def total_score_def max_total_score_def
          cq(2) api(2) sys(2) m)
    have c: "critical_issues res = [?issue]" unfolding ci all using crit by simp
    have w': "warnings res = []" unfolding wa all using crit by simp
    have "overall_status res = READY_WITH_WARNINGS"
      unfolding st score c by (simp add: determine_status_def)
    with score c w' show ?thesis by (intro conjI)
  qed
  have imp: "snd (run_assessment cfg w) = Inr res \<and>
          snd (assess_code_quality (code_quality_env w)) = Inr cq \<and> score cq = 100 \<and>
          snd (assess_api_readiness cfg (api_env w)) = Inr api \<and> score api = 100 \<and>
          snd (assess_system_resources cfg (system_env w)) = Inr sys \<and> score sys = 100 \<longrightarrow>
            readiness_score res = 75 \<and> critical_issues res = [?issue] \<and>
            warnings res = [] \<and> overall_status res = READY_WITH_WARNINGS"
    by (rule impI) (elim conjE, rule run)
  show ?thesis
    by (rule conjI [OF db conjI [OF sub conjI [OF crit imp]]])
qed

theorem database_outage_witness:
  "db_connect (database_env db_down_env) = Some (Exc MySQLError ''2003: connection refused'') \<and>
   snd (run_assessment (default_config []) db_down_env) = Inr db_down_results \<and>
   snd (assess_code_quality (code_quality_env db_down_env)) = Inr (snd (healthy_categories ! 0)) \<and>
   snd (assess_api_readiness (default_config []) (api_env db_down_env)) =
     Inr (snd (healthy_categories ! 2)) \<and>
   snd (assess_system_resources (default_config []) (system_env db_down_env)) =
     Inr (snd (healthy_categories ! 3)) \<and>
   score (snd (healthy_categories ! 0)) = 100 \<and> score (snd (healthy_categories ! 2)) = 100 \<and>
   score (snd (healthy_categories ! 3)) = 100 \<and>
   readiness_score db_down_results = 75 \<and>
   length (critical_issues db_down_results) = 1 \<and>
   overall_status db_down_results = READY_WITH_WARNINGS"
proof -
  have h: "db_connect (database_env db_down_env) =
      Some (Exc MySQLError ''2003: connection refused'')"
    by (simp add: db_down_env_def healthy_env_def healthy_database_def)
  have a: "snd (assess_code_quality (code_quality_env db_down_env)) =
      Inr (snd (healthy_categories ! 0))"
    "snd (assess_api_readiness (default_config []) (api_env db_down_env)) =
      Inr (snd (healthy_categories ! 2))"
    "snd (assess_system_resources (default_config []) (system_env db_down_env)) =
      Inr (snd (healthy_categories ! 3))"
    by (simp_all add: db_down_env_def healthy_env_def healthy_code_quality_result
        healthy_api_result healthy_system_result healthy_categories_def)
  have s: "score (snd (healthy_categories ! 0)) = 100" "score (snd (healthy_categories ! 2)) = 100"
    "score (snd (healthy_categories ! 3)) = 100"
    by (simp_all add: healthy_categories_def)
  note T = database_outage [OF h, where cfg = "default_config []" and res = db_down_results
      and cq = "snd (healthy_categories ! 0)" and api = "snd (healthy_categories ! 2)"
      and sys = "snd (healthy_categories ! 3)"]
  have pre: "snd (run_assessment (default_config []) db_down_env) = Inr db_down_results \<and>
      snd (assess_code_quality (code_quality_env db_down_env)) =
        Inr (snd (healthy_categories ! 0)) \<and> score (snd (healthy_categories ! 0)) = 100 \<and>
      snd (assess_api_readiness (default_config []) (api_env db_down_env)) =
        Inr (snd (healthy_categories ! 2)) \<and> score (snd (healthy_categories ! 2)) = 100 \<and>
      snd (assess_system_resources (default_config []) (system_env db_down_env)) =
        Inr (snd (healthy_categories ! 3)) \<and> score (snd (healthy_categories ! 3)) = 100"
    using db_down_run a s by (intro conjI)
  have "readiness_score db_down_results = 75 \<and>
        critical_issues db_down_results =
          [''Database connection error: '' @ ''2003: connection refused''] \<and>
        warnings db_down_results = [] \<and>
        overall_status db_down_results = READY_WITH_WARNINGS"
    by (rule mp [OF conjunct2 [OF conjunct2 [OF conjunct2 [OF T]]] pre])
  then have "readiness_score db_down_results = 75 \<and>
        length (critical_issues db_down_results) = 1 \<and>
        overall_status db_down_results = READY_WITH_WARNINGS"
    by simp
  with h db_down_run a s show ?thesis by (intro conjI) simp_all
qed

lemma openings_distinct:
  "ready_opening \<noteq> warnings_opening" "ready_opening \<noteq> not_ready_opening"
  "warnings_opening \<noteq> not_ready_opening"
  by (simp_all add: ready_opening_def warnings_opening_def not_ready_opening_def)

lemma coverage_failed_code_quality:
  "assess_code_quality (healthy_code_quality\<lparr>mvn_jacoco_report := Completed 1 []\<rparr>) =
     ([Mvn_test, Mvn_jacoco_report, Mvn_spotbugs_check, Mvn_dependency_check],
      Inr \<lparr>score = 80, max_score = 100,
           details = [(''backend_tests'', ''PASSED''), (''test_coverage'', ''FAILED''),
                      (''static_analysis'', ''PASSED''), (''security_scan'', ''PASSED'')],
           issues = [''Test coverage report generation failed'']\<rparr>)"
  by (simp add: healthy_code_quality_def assess_code_quality_def io_bind_def
      backend_tests_probe_def test_coverage_probe_def static_analysis_probe_def
      security_scan_probe_def result_ops)

lemma lower_coverage_issue:
  "lower ''Test coverage report generation failed'' = ''test coverage report generation failed''"
  by (simp add: lower_def lower_char_def char_of_eq_iff)

lemma coverage_failed_run:
  "snd (run_assessment (default_config []) coverage_failed_env) = Inr coverage_failed_results"
  by (simp add: run_assessment_def coverage_failed_env_def healthy_env_def
      coverage_failed_code_quality healthy_database_result healthy_api_result
      healthy_system_result io_bind_def finalize_def initial_results_def
      coverage_failed_results_def healthy_categories_def aggregate_defs
      is_critical_def critical_keywords_def lower_coverage_issue)

lemma run_max_total:
  assumes "snd (run_assessment cfg w) = Inr res"
  shows "max_total_score (categories res) = 400"
proof -
  from assms obtain cq db api sys where
    r: "snd (assess_code_quality (code_quality_env w)) = Inr cq"
       "snd (assess_database_readiness cfg (database_env w)) = Inr db"
       "snd (assess_api_readiness cfg (api_env w)) = Inr api"
       "snd (assess_system_resources cfg (system_env w)) = Inr sys" and
    cats: "categories res = [(''code_quality'', cq), (''database'', db), (''api'', api),
                            (''system_resources'', sys)]"
    by (rule run_assessment_Inr)
  from assess_code_quality_bounds [OF r(1)] assess_database_readiness_bounds [OF r(2)]
    assess_api_readiness_bounds [OF r(3)] assess_system_resources_bounds [OF r(4)]
  show ?thesis by (simp add: cats max_total_score_def)
qed

lemma run_tier:
  assumes "snd (run_assessment cfg w) = Inr res"
  shows "tier_recommendations (of_int (total_score (categories res)) /
                               of_int (max_total_score (categories res))) =
         (if readiness_score res \<ge> 90 then [ready_opening, ''Proceed with deployment checklist'']
          else if readiness_score res \<ge> 70
          then [warnings_opening, ''Address warnings before deployment'',
                ''Ensure rollback procedures are ready'']
          else [not_ready_opening, ''Address critical issues before proceeding'',
                ''Re-run assessment after fixes''])"
proof -
  from assms have "readiness_score res = compute_readiness_score (categories res)"
    by (rule run_assessment_Inr)
  then have rs: "readiness_score res = of_int (total_score (categories res)) / 400 * 100"
    by (simp add: compute_readiness_score_def run_max_total [OF assms])
  show ?thesis
    unfolding tier_recommendations_def run_max_total [OF assms] rs by simp
qed

lemma issue_recommendations_append:
  "issue_recommendations all_issues recs0 = recs0 @ issue_recommendations all_issues []"
  by (simp add: issue_recommendations_blocks)

lemma issue_recommendations_none: "issue_recommendations [] [] = []"
  by (simp add: issue_recommendations_blocks)

lemma full_scores_total:
  "\<forall>(name, cat) \<in> set cats. score cat = max_score cat \<Longrightarrow>
     total_score cats = max_total_score cats"
  by (induction cats) (auto simp: total_score_def max_total_score_def)

section \<open>The opening recommendation\<close>

text \<open>
  C5, as the code has it. The coverage report failing alone leaves the score at 95 with one
  critical issue: the status is \<open>READY_WITH_WARNINGS\<close>, and the recommendations open with
  the line of the \<open>READY\<close> tier.
\<close>

theorem opening_matches_status_counterexample:
  "snd (run_assessment (default_config []) coverage_failed_env) = Inr coverage_failed_results \<and>
   overall_status coverage_failed_results = READY_WITH_WARNINGS \<and>
   hd (recommendations coverage_failed_results) = ready_opening \<and>
   hd (recommendations coverage_failed_results) \<noteq> warnings_opening"
  using coverage_failed_run
  by (simp add: coverage_failed_results_def openings_distinct)

text \<open>
  C5, amended. In every run that completes, the recommendations are the lines of the score
  tier followed by the trigger blocks of the issues, so they are a function of the readiness
  score and the issue set: the \<open>READY\<close> opening and its follow-up when the score is at least
  90, the \<open>READY_WITH_WARNINGS\<close> opening and its two follow-ups when it is at least 70 and
  below 90, the \<open>NOT_READY\<close> opening and its two follow-ups below 70. The opening agrees with
  the status whenever there is no critical issue, and a \<open>READY\<close> status always has the
  \<open>READY\<close> opening. When every category scores its maximum and there is no issue, the score
  is 100, the status \<open>READY\<close>, and the list is the \<open>READY\<close> opening and its follow-up alone.
\<close>

theorem recommendation_opening:
  assumes "snd (run_assessment cfg w) = Inr res"
  shows "recommendations res =
           (if readiness_score res \<ge> 90
            then [ready_opening, ''Proceed with deployment checklist'']
            else if readiness_score res \<ge> 70
            then [warnings_opening, ''Address warnings before deployment'',
                  ''Ensure rollback procedures are ready'']
            else [not_ready_opening, ''Address critical issues before proceeding'',
                  ''Re-run assessment after fixes'']) @
           issue_recommendations (all_issues_of (categories res)) [] \<and>
         (hd (recommendations res) = ready_opening \<longleftrightarrow> readiness_score res \<ge> 90) \<and>
         (hd (recommendations res) = warnings_opening \<longleftrightarrow>
            readiness_score res \<ge> 70 \<and> readiness_score res < 90) \<and>
         (hd (recommendations res) = not_ready_opening \<longleftrightarrow> readiness_score res < 70) \<and>
         (critical_issues res = [] \<longrightarrow>
            (hd (recommendations res) = ready_opening \<longleftrightarrow> overall_status res = READY) \<and>
            (hd (recommendations res) = warnings_opening \<longleftrightarrow>
               overall_status res = READY_WITH_WARNINGS) \<and>
            (hd (recommendations res) = not_ready_opening \<longleftrightarrow>
               overall_status res = NOT_READY)) \<and>
         (overall_status res = READY \<longrightarrow> hd (recommendations res) = ready_opening) \<and>
         ((\<forall>(name, cat) \<in> set (categories res). score cat = max_score cat) \<and>
          all_issues_of (categories res) = [] \<longrightarrow>
            readiness_score res = 100 \<and> overall_status res = READY \<and>
            recommendations res = [ready_opening, ''Proceed with deployment checklist''])"
proof -
  define rs where "rs = readiness_score res"
  define crit where "crit = critical_issues res"
  define extra where "extra = issue_recommendations (all_issues_of (categories res)) []"
  define recs where "recs = recommendations res"
  define st where "st = overall_status res"
  from assms have gen: "generate_recommendations (categories res) = Inr (recommendations res)"
    by (rule run_assessment_Inr)
  from assms
  have st0: "overall_status res = determine_status (readiness_score res) (critical_issues res)"
    by (rule run_assessment_Inr)
  from assms have rs0: "readiness_score res = compute_readiness_score (categories res)"
    by (rule run_assessment_Inr)
  from assms
  have ci0: "critical_issues res = filter is_critical (all_issues_of (categories res))"
    by (rule run_assessment_Inr)
  define tier where "tier =
           (if rs \<ge> 90
            then [ready_opening, ''Proceed with deployment checklist'']
            else if rs \<ge> 70
            then [warnings_opening, ''Address warnings before deployment'',
                  ''Ensure rollback procedures are ready'']
            else [not_ready_opening, ''Address critical issues before proceeding'',
                  ''Re-run assessment after fixes''])"
  have "recommendations res =
      issue_recommendations (all_issues_of (categories res))
        (tier_recommendations (of_int (total_score (categories res)) /
                               of_int (max_total_score (categories res))))"
    by (rule conjunct2 [OF generate_recommendations_Inr [OF gen]])
  also have "\<dots> =
      tier_recommendations (of_int (total_score (categories res)) /
                            of_int (max_total_score (categories res))) @
      issue_recommendations (all_issues_of (categories res)) []"
    by (rule issue_recommendations_append)
  finally have list: "recs = tier @ extra"
    unfolding run_tier [OF assms] rs_def [symmetric] extra_def [symmetric]
      recs_def [symmetric] tier_def [symmetric] .
  have hd: "hd recs = (if rs \<ge> 90 then ready_opening
                       else if rs \<ge> 70 then warnings_opening else not_ready_opening)"
    unfolding list tier_def by simp
  have h1: "hd recs = ready_opening \<longleftrightarrow> rs \<ge> 90"
    unfolding hd using openings_distinct by simp
  have h2: "hd recs = warnings_opening \<longleftrightarrow> rs \<ge> 70 \<and> rs < 90"
    unfolding hd using openings_distinct by (simp add: not_le)
  have h3: "hd recs = not_ready_opening \<longleftrightarrow> rs < 70"
    unfolding hd using openings_distinct by (simp add: not_le)
  have st: "st = determine_status rs crit"
    unfolding st_def rs_def crit_def by (rule st0)
  have agree: "(hd recs = ready_opening \<longleftrightarrow> st = READY) \<and>
               (hd recs = warnings_opening \<longleftrightarrow> st = READY_WITH_WARNINGS) \<and>
               (hd recs = not_ready_opening \<longleftrightarrow> st = NOT_READY)" if "crit = []"
    unfolding h1 h2 h3 st that by (auto simp: determine_status_def)
  have ready: "hd recs = ready_opening" if "st = READY"
    using that unfolding h1 st by (auto simp: determine_status_def split: if_splits)
  have full: "rs = 100 \<and> st = READY \<and>
              recs = [ready_opening, ''Proceed with deployment checklist'']"
    if f: "\<forall>(name, cat) \<in> set (categories res). score cat = max_score cat"
      and n: "all_issues_of (categories res) = []"
  proof -
    have "total_score (categories res) = 400"
      using full_scores_total [OF f] run_max_total [OF assms] by simp
    then have r: "rs = 100"
      unfolding rs_def rs0 by (simp add: compute_readiness_score_def run_max_total [OF assms])
    have c: "crit = []" unfolding crit_def ci0 n by simp
    have e: "extra = []" unfolding extra_def n by (rule issue_recommendations_none)
    show ?thesis unfolding list tier_def st r c e by (simp add: determine_status_def)
  qed
  have agree': "crit = [] \<longrightarrow>
            (hd recs = ready_opening \<longleftrightarrow> st = READY) \<and>
            (hd recs = warnings_opening \<longleftrightarrow> st = READY_WITH_WARNINGS) \<and>
            (hd recs = not_ready_opening \<longleftrightarrow> st = NOT_READY)"
    by (rule impI) (rule agree)
  have ready': "st = READY \<longrightarrow> hd recs = ready_opening"
    by (rule impI) (rule ready)
  have full': "(\<forall>(name, cat) \<in> set (categories res). score cat = max_score cat) \<and>
          all_issues_of (categories res) = [] \<longrightarrow>
            rs = 100 \<and> st = READY \<and>
            recs = [ready_opening, ''Proceed with deployment checklist'']"
    by (rule impI) (elim conjE, rule full)
  note all = conjI [OF list conjI [OF h1 conjI [OF h2 conjI [OF h3
      conjI [OF agree' conjI [OF ready' full']]]]]]
  show ?thesis
    by (rule all [unfolded tier_def rs_def crit_def extra_def recs_def st_def])
qed

theorem recommendation_opening_witness:
  "snd (run_assessment (default_config []) healthy_env) = Inr healthy_results \<and>
   map (\<lambda>(name, cat). score cat) (categories healthy_results) = [100, 100, 100, 100] \<and>
   map (\<lambda>(name, cat). max_score cat) (categories healthy_results) = [100, 100, 100, 100] \<and>
   all_issues_of (categories healthy_results) = [] \<and>
   critical_issues healthy_results = [] \<and> overall_status healthy_results = READY \<and>
   readiness_score healthy_results = 100 \<and>
   recommendations healthy_results = [ready_opening, ''Proceed with deployment checklist''] \<and>
   hd (recommendations healthy_results) = ready_opening"
  using recommendation_opening [OF healthy_run] healthy_run
  by (simp add: healthy_results_def healthy_categories_def all_issues_of_def)

section \<open>Failures of the disk and load probes\<close>

text \<open>
  C7, on the code. With \<^verbatim>\<open>uptime\<close> exiting with status 1 the load probe awards nothing,
  writes no detail and appends no issue; so does the disk probe with \<^verbatim>\<open>df\<close> exiting with
  status 1. With \<^verbatim>\<open>uptime\<close> raising, the load probe writes the detail \<open>load_check\<close> and
  appends no issue. In each case the assessor returns 70 points and an empty issue list.
\<close>

theorem system_probe_failures_unrecorded:
  "assess_system_resources (default_config []) (healthy_system\<lparr>uptime := Completed 1 []\<rparr>) =
     ([Pgrep, Ps_rss, Df, Uptime],
      Inr \<lparr>score = 70, max_score = 100,
           details = [(''memory_usage'', ''512MB''),
                      (''disk_space'', ''60G available (40% used)'')],
           issues = []\<rparr>) \<and>
   assess_system_resources (default_config []) (healthy_system\<lparr>df := Completed 1 []\<rparr>) =
     ([Pgrep, Ps_rss, Df, Uptime],
      Inr \<lparr>score = 70, max_score = 100,
           details = [(''memory_usage'', ''512MB''), (''system_load'', ''up 1 day'')],
           issues = []\<rparr>) \<and>
   assess_system_resources (default_config [])
       (healthy_system\<lparr>uptime := ProcRaised (Exc OSError ''uptime: not found'')\<rparr>) =
     ([Pgrep, Ps_rss, Df, Uptime],
      Inr \<lparr>score = 70, max_score = 100,
           details = [(''memory_usage'', ''512MB''),
                      (''disk_space'', ''60G available (40% used)''),
                      (''load_check'', ''ERROR: uptime: not found'')],
           issues = []\<rparr>)"
  by (simp add: healthy_system_def assess_system_resources_def io_bind_def memory_probe_def
      memory_reading_def disk_space_probe_def disk_reading_def system_load_probe_def
      threshold_def default_config_def strip_def is_space_def split_sep_def split_ws_def
      index_def py_int_def parse_literal_def is_digit_def digit_value_def rstrip_char_def
      str_int_def str_nat_eval result_ops Let_def)

lemma fst_io_bind:
  "fst (io_bind m f) = (case snd m of Inl e \<Rightarrow> fst m | Inr x \<Rightarrow> fst m @ fst (f x))"
  by (cases m; cases "snd m") (auto simp: io_bind_def split: prod.splits)

lemma snd_io_bind:
  "snd (io_bind m f) = (case snd m of Inl e \<Rightarrow> Inl e | Inr x \<Rightarrow> snd (f x))"
  by (cases m; cases "snd m") (auto simp: io_bind_def split: prod.splits)

lemma code_quality_probes_return:
  "\<exists>r'. backend_tests_probe env r = ([Mvn_test], Inr r')"
  "\<exists>r'. test_coverage_probe env r = ([Mvn_jacoco_report], Inr r')"
  "\<exists>r'. static_analysis_probe env r = ([Mvn_spotbugs_check], Inr r')"
  "\<exists>r'. security_scan_probe env r = ([Mvn_dependency_check], Inr r')"
  by (simp_all add: backend_tests_probe_def test_coverage_probe_def static_analysis_probe_def
      security_scan_probe_def)

lemma assess_code_quality_calls:
  "\<exists>r. assess_code_quality env =
         ([Mvn_test, Mvn_jacoco_report, Mvn_spotbugs_check, Mvn_dependency_check], Inr r)"
proof -
  obtain r1 where 1: "backend_tests_probe env initial_result = ([Mvn_test], Inr r1)"
    using code_quality_probes_return(1) by blast
  obtain r2 where 2: "test_coverage_probe env r1 = ([Mvn_jacoco_report], Inr r2)"
    using code_quality_probes_return(2) by blast
  obtain r3 where 3: "static_analysis_probe env r2 = ([Mvn_spotbugs_check], Inr r3)"
    using code_quality_probes_return(3) by blast
  obtain r4 where 4: "security_scan_probe env r3 = ([Mvn_dependency_check], Inr r4)"
    using code_quality_probes_return(4) by blast
  show ?thesis
    by (simp add: assess_code_quality_def io_bind_def 1 2 3 4)
qed

lemma memory_probe_returns:
  "\<exists>r'. memory_probe cfg env r = ([Pgrep], Inr r') \<or> memory_probe cfg env r = ([Pgrep, Ps_rss], Inr r')"
  by (simp add: memory_probe_def split: proc_outcome.splits sum.splits)

lemma disk_space_probe_returns: "\<exists>r'. disk_space_probe env r = ([Df], Inr r')"
  by (simp add: disk_space_probe_def)

lemma system_load_probe_returns: "\<exists>r'. system_load_probe env r = ([Uptime], Inr r')"
  by (simp add: system_load_probe_def)

lemma assess_system_resources_calls:
  "\<exists>r. assess_system_resources cfg env = ([Pgrep, Df, Uptime], Inr r) \<or>
       assess_system_resources cfg env = ([Pgrep, Ps_rss, Df, Uptime], Inr r)"
proof -
  obtain r1 where 1: "memory_probe cfg env initial_result = ([Pgrep], Inr r1) \<or>
      memory_probe cfg env initial_result = ([Pgrep, Ps_rss], Inr r1)"
    using memory_probe_returns by blast
  obtain r2 where 2: "disk_space_probe env r1 = ([Df], Inr r2)"
    using disk_space_probe_returns by blast
  obtain r3 where 3: "system_load_probe env r2 = ([Uptime], Inr r3)"
    using system_load_probe_returns by blast
  from 1 show ?thesis
    by (auto simp: assess_system_resources_def io_bind_def 2 3)
qed







lemma run_assessment_calls:
  "fst (run_assessment cfg w) =
     fst (assess_code_quality (code_quality_env w)) @
     fst (assess_database_readiness cfg (database_env w)) @
     (case snd (assess_database_readiness cfg (database_env w)) of
        Inl e \<Rightarrow> []
      | Inr db \<Rightarrow>
          fst (assess_api_readiness cfg (api_env w)) @
          (case snd (assess_api_readiness cfg (api_env w)) of
             Inl e \<Rightarrow> []
           | Inr api \<Rightarrow> fst (assess_system_resources cfg (system_env w))))"
proof -
  obtain r where cq: "assess_code_quality (code_quality_env w) =
      ([Mvn_test, Mvn_jacoco_report, Mvn_spotbugs_check, Mvn_dependency_check], Inr r)"
    using assess_code_quality_calls by blast
  obtain r' where sys: "snd (assess_system_resources cfg (system_env w)) = Inr r'"
    using assess_system_resources_calls [of cfg "system_env w"] by auto
  show ?thesis
    by (simp add: run_assessment_def fst_io_bind snd_io_bind cq sys split: sum.splits)
qed


lemma health_down_api_result:
  "assess_api_readiness (default_config []) health_down_api =
     ([Http_health, Http_financial_data, Http_dcf_calculate],
      Inr \<lparr>score = 75, max_score = 100,
           details = [(''health_check'', ''ERROR: connection refused''),
                      (''serialization'', ''OK''), (''decimal_format'', ''OK''),
                      (''dcf_performance'', ''120.00ms'')],
           issues = [''Health check error: connection refused'']\<rparr>)"
  by (simp add: health_down_api_def healthy_api_def assess_api_readiness_def io_bind_def
      health_check_probe_def financial_data_probe_def dcf_calculation_probe_def
      serialization_check_def decimal_format_check_def threshold_def default_config_def
      lower_def lower_char_def format_2f_def round_half_even_def str_nat_eval result_ops)

section \<open>Probe isolation\<close>








lemma main_exits:
  assumes "load_config (env_db_password w) (files w)
             (if length (argv w) > 1 then Some (argv w ! 1) else None) = Inr cfg"
    and "snd (run_assessment cfg w) = Inr res" and "save_report_raises w = None"
  shows "main w = (fst (run_assessment cfg w), SysExit (exit_code (overall_status res)))"
  using assms by (cases "run_assessment cfg w") (simp add: main_def)


lemma main_healthy:
  "main healthy_env =
     ([Mvn_test, Mvn_jacoco_report, Mvn_spotbugs_check, Mvn_dependency_check, Db_connect,
       Db_cursor, Db_select_1, Db_schema_query, Db_count_inputs, Db_count_outputs,
       Db_join_query, Db_is_connected, Db_cursor_close, Db_connection_close, Http_health,
       Http_financial_data, Http_dcf_calculate, Pgrep, Ps_rss, Df, Uptime], SysExit 0)"
proof -
  have c: "load_config (env_db_password healthy_env) (files healthy_env)
             (if length (argv healthy_env) > 1 then Some (argv healthy_env ! 1) else None) =
           Inr (default_config [])"
    by (simp add: healthy_env_def load_config_def)
  have s: "save_report_raises healthy_env = None" by (simp add: healthy_env_def)
  have calls: "fst (run_assessment (default_config []) healthy_env) =
     [Mvn_test, Mvn_jacoco_report, Mvn_spotbugs_check, Mvn_dependency_check, Db_connect,
       Db_cursor, Db_select_1, Db_schema_query, Db_count_inputs, Db_count_outputs,
       Db_join_query, Db_is_connected, Db_cursor_close, Db_connection_close, Http_health,
       Http_financial_data, Http_dcf_calculate, Pgrep, Ps_rss, Df, Uptime]"
    by (simp add: run_assessment_calls healthy_env_def healthy_code_quality_result
        healthy_database_result healthy_api_result healthy_system_result)
  show ?thesis
    unfolding main_exits [OF c healthy_run s] calls
    by (simp add: healthy_results_def exit_code_def)
qed


section \<open>Exit codes\<close>




end
